theory Spec2Isabelle
  imports Complex_Main "HOL-Library.Log_Nat"
begin

section \<open>Data model of \<open>jpegface.py\<close>\<close>

text \<open>
  The program is Python 2 over numpy arrays of \<open>float64\<close>. Floats are modelled by
  the reals, and rounding is not modelled, except in the section on the stage constraint
  in float64, which writes the rounding of each operation out. Python integers are
  modelled by \<open>int\<close>. A two-dimensional
  numpy array is a list of rows; the rows of an array have the same length. Every
  exception the code can raise is a value of \<open>error\<close>, and a function that can raise
  returns \<open>error + 'a\<close>.
\<close>

datatype error =
    AttributeError
  | AssertionError
  | IndexError
  | ValueError
  | KeyError
  | CvError
  | SolveFailed
  | DOcplexException

type_synonym grid = "real list list"

text \<open>\<open>Rect = namedtuple('Rect', ['x', 'y', 'w', 'h', 'weight'])\<close>\<close>

record Rect =
  rect_x :: int
  rect_y :: int
  rect_w :: int
  rect_h :: int
  weight :: real

text \<open>\<open>WeakClassifier = namedtuple(..., ['feature_idx', 'threshold', 'fail_val', 'pass_val'])\<close>\<close>

record WeakClassifier =
  feature_idx :: int
  threshold :: real
  fail_val :: real
  pass_val :: real

text \<open>\<open>Stage = namedtuple('Stage', ['threshold', 'weak_classifiers'])\<close>\<close>

record Stage =
  stage_threshold :: real
  weak_classifiers :: "WeakClassifier list"

text \<open>\<open>Cascade\<close>: a namedtuple of \<open>width\<close>, \<open>height\<close>, \<open>stages\<close>, \<open>features\<close>.\<close>

record Cascade =
  width :: int
  height :: int
  stages :: "Stage list"
  features :: "Rect list list"

section \<open>Python and numpy primitives\<close>

text \<open>\<open>xs[i]\<close> on a Python list: a negative index counts from the end, an index
  out of range raises \<open>IndexError\<close>.\<close>

definition py_index :: "'a list \<Rightarrow> int \<Rightarrow> error + 'a" where
  "py_index xs i =
     (let n = int (length xs); j = (if i < 0 then i + n else i)
      in if 0 \<le> j \<and> j < n then Inr (xs ! nat j) else Inl IndexError)"

text \<open>A bound of a slice \<open>a:b\<close> on an axis of length \<open>n\<close>: a negative bound has
  \<open>n\<close> added, and the result is clipped to \<open>[0, n]\<close>. Slicing never raises.\<close>

definition slice_bound :: "nat \<Rightarrow> int \<Rightarrow> nat" where
  "slice_bound n i = (if i < 0 then nat (max 0 (i + int n)) else min (nat i) n)"

text \<open>\<open>numpy.zeros((rows, cols))\<close>\<close>

definition zeros :: "nat \<Rightarrow> nat \<Rightarrow> grid" where
  "zeros nrows ncols = replicate nrows (replicate ncols 0)"

text \<open>\<open>out[y:(y + h), x:(x + w)] += weight\<close>\<close>

definition add_to_slice :: "grid \<Rightarrow> Rect \<Rightarrow> grid" where
  "add_to_slice out r =
     (let r0 = slice_bound (length out) (rect_y r);
          r1 = slice_bound (length out) (rect_y r + rect_h r)
      in map (\<lambda>i.
            if r0 \<le> i \<and> i < r1
            then (let row = out ! i;
                      c0 = slice_bound (length row) (rect_x r);
                      c1 = slice_bound (length row) (rect_x r + rect_w r)
                  in map (\<lambda>j. if c0 \<le> j \<and> j < c1 then row ! j + weight r else row ! j)
                       [0..<length row])
            else out ! i)
          [0..<length out])"

text \<open>The shape of a grid: \<open>has_shape nrows ncols g\<close>.\<close>

definition has_shape :: "nat \<Rightarrow> nat \<Rightarrow> grid \<Rightarrow> bool" where
  "has_shape nrows ncols g = (length g = nrows \<and> list_all (\<lambda>row. length row = ncols) g)"

section \<open>\<open>Cascade.feature_to_array\<close>\<close>

text \<open>
  \<^verbatim>\<open>
  def feature_to_array(self, feature_idx):
      out = numpy.zeros((self.height, self.width))
      feature = self.features[feature_idx]
      for x, y, w, h, weight in feature:
          out[y:(y + h), x:(x + w)] += weight
      return out
  \<close>
  \<open>numpy.zeros\<close> raises \<open>ValueError\<close> on a negative dimension.
\<close>

definition feature_to_array :: "Cascade \<Rightarrow> int \<Rightarrow> error + grid" where
  "feature_to_array self fidx =
     (if height self < 0 \<or> width self < 0 then Inl ValueError
      else case py_index (features self) fidx of
             Inl e \<Rightarrow> Inl e
           | Inr feature \<Rightarrow>
               Inr (foldl add_to_slice (zeros (nat (height self)) (nat (width self))) feature))"

text \<open>The footprint \<open>[y, y+h) \<times> [x, x+w)\<close> of a rectangle, at row \<open>i\<close> and column \<open>j\<close>.\<close>

definition covers :: "Rect \<Rightarrow> nat \<Rightarrow> nat \<Rightarrow> bool" where
  "covers r i j =
     (rect_y r \<le> int i \<and> int i < rect_y r + rect_h r \<and>
      rect_x r \<le> int j \<and> int j < rect_x r + rect_w r)"

definition nonneg_rect :: "Rect \<Rightarrow> bool" where
  "nonneg_rect r = (0 \<le> rect_x r \<and> 0 \<le> rect_y r \<and> 0 \<le> rect_w r \<and> 0 \<le> rect_h r)"

text \<open>The cells a slice assignment touches, written with the slice bounds.\<close>

definition in_slice :: "nat \<Rightarrow> nat \<Rightarrow> Rect \<Rightarrow> nat \<Rightarrow> nat \<Rightarrow> bool" where
  "in_slice n m r i j =
     (slice_bound n (rect_y r) \<le> i \<and> i < slice_bound n (rect_y r + rect_h r) \<and>
      slice_bound m (rect_x r) \<le> j \<and> j < slice_bound m (rect_x r + rect_w r))"


section \<open>\<open>Cascade.detect\<close>\<close>

text \<open>\<open>im.shape\<close> of a two-dimensional array. An array without rows is
  represented by \<open>[]\<close> and has shape \<open>(0, 0)\<close>.\<close>

definition shape_of :: "grid \<Rightarrow> int \<times> int" where
  "shape_of g = (int (length g), (if g = [] then 0 else int (length (hd g))))"

text \<open>
  \<open>cv2.resize(im, (width, height), interpolation=cv2.INTER_AREA)\<close> is a function of the
  OpenCV library. It is a parameter of the model: a \<open>resizer\<close> gives the resampled
  intensity of every cell, or fails. OpenCV refuses a target size that is not positive
  and returns an array of exactly the requested size.
\<close>

type_synonym resizer = "grid \<Rightarrow> nat \<times> nat \<Rightarrow> (nat \<Rightarrow> nat \<Rightarrow> real) option"

definition cv2_resize :: "resizer \<Rightarrow> grid \<Rightarrow> int \<times> int \<Rightarrow> error + grid" where
  "cv2_resize rs im dsize =
     (case dsize of (wd, ht) \<Rightarrow>
        if wd \<le> 0 \<or> ht \<le> 0 then Inl CvError
        else (case rs im (nat wd, nat ht) of
                None \<Rightarrow> Inl CvError
              | Some f \<Rightarrow> Inr (map (\<lambda>i. map (\<lambda>j. f i j) [0..<nat wd]) [0..<nat ht])))"

text \<open>\<open>im /= 256. * (self.height * self.width)\<close>, as a function of the array's
  contents.\<close>

definition normalise :: "Cascade \<Rightarrow> grid \<Rightarrow> grid" where
  "normalise self im = map (map (\<lambda>v. v / (256 * real_of_int (height self * width self)))) im"

text \<open>\<open>numpy.sum(feature_array * im)\<close> for two arrays of the same shape.\<close>

definition grid_dot :: "grid \<Rightarrow> grid \<Rightarrow> real" where
  "grid_dot a b = (\<Sum>(ra, rb)\<leftarrow>zip a b. \<Sum>(p, q)\<leftarrow>zip ra rb. p * q)"

text \<open>
  The inner loop of \<open>detect\<close> over the weak classifiers of one stage. Besides the
  running \<open>total\<close> it threads a log of the classifiers it has evaluated (one entry per
  call of \<open>feature_to_array\<close>); the log is not part of the program's result and only
  records which classifiers were evaluated.
  \<^verbatim>\<open>
  total = 0
  for classifier in stage.weak_classifiers:
      feature_array = self.feature_to_array(classifier.feature_idx)
      if numpy.sum(feature_array * im) >= classifier.threshold:
          total += classifier.pass_val
      else:
          total += classifier.fail_val
  \<close>
\<close>

fun stage_total ::
  "Cascade \<Rightarrow> grid \<Rightarrow> WeakClassifier list \<Rightarrow> real \<times> WeakClassifier list
     \<Rightarrow> error + real \<times> WeakClassifier list" where
  "stage_total self im [] (tot, seen) = Inr (tot, seen)"
| "stage_total self im (classifier # rest) (tot, seen) =
     (case feature_to_array self (feature_idx classifier) of
        Inl e \<Rightarrow> Inl e
      | Inr feature_array \<Rightarrow>
          stage_total self im rest
            ((if grid_dot feature_array im \<ge> threshold classifier
              then tot + pass_val classifier
              else tot + fail_val classifier),
             seen @ [classifier]))"

text \<open>
  The outer loop over \<open>enumerate(self.stages)\<close>.
  \<^verbatim>\<open>
  for stage_idx, stage in enumerate(self.stages):
      total = ...
      if total < stage.threshold:
          print "Bailing out at stage {}".format(stage_idx)
          return -stage_idx
  return 1
  \<close>
  The \<open>print\<close> writes to the standard output only and is left out.
\<close>

fun detect_stages ::
  "Cascade \<Rightarrow> grid \<Rightarrow> int \<Rightarrow> Stage list \<Rightarrow> WeakClassifier list
     \<Rightarrow> error + int \<times> WeakClassifier list" where
  "detect_stages self im stage_idx [] seen = Inr (1, seen)"
| "detect_stages self im stage_idx (stage # rest) seen =
     (case stage_total self im (weak_classifiers stage) (0, seen) of
        Inl e \<Rightarrow> Inl e
      | Inr (tot, seen') \<Rightarrow>
          if tot < stage_threshold stage then Inr (- stage_idx, seen')
          else detect_stages self im (stage_idx + 1) rest seen')"

text \<open>
  Arrays are objects that the caller and \<open>detect\<close> can share, and \<open>/=\<close> writes in
  place. A \<open>store\<close> holds every array; an address is an index into it. \<open>alloc\<close> puts a
  new array at a fresh address.
\<close>

type_synonym store = "grid list"

definition alloc :: "grid \<Rightarrow> store \<Rightarrow> nat \<times> store" where
  "alloc g s = (length s, s @ [g])"

text \<open>
  \<^verbatim>\<open>
  def detect(self, im):
      if im.shape != (self.height, self.width):
          im = cv2.resize(im, (self.width, self.height),
                         interpolation=cv2.INTER_AREA)
      im = im.astype(numpy.float64)
      im /= 256. * (self.height * self.width)
      for stage_idx, stage in enumerate(self.stages): ...
  \<close>
  \<open>detect_run\<close> takes the address \<open>im\<close> of the caller's array and the store, and
  returns the result with the store it leaves behind. \<open>cv2.resize\<close> and
  \<open>astype\<close> return new arrays; \<open>/=\<close> overwrites the array its left side names.
  The arrays made inside \<open>feature_to_array\<close> and the product
  \<open>feature_array * im\<close> are temporaries that nothing else names; they are values.
\<close>

definition detect_run ::
  "resizer \<Rightarrow> Cascade \<Rightarrow> nat \<Rightarrow> store
     \<Rightarrow> (error + int \<times> WeakClassifier list) \<times> store" where
  "detect_run rs self im s =
     (case (if shape_of (s ! im) \<noteq> (height self, width self)
            then (case cv2_resize rs (s ! im) (width self, height self) of
                    Inl e \<Rightarrow> Inl e
                  | Inr g \<Rightarrow> Inr (alloc g s))
            else Inr (im, s)) of
        Inl e \<Rightarrow> (Inl e, s)
      | Inr (im1, s1) \<Rightarrow>
          (case alloc (s1 ! im1) s1 of
             (im2, s2) \<Rightarrow>
               (let s3 = s2[im2 := normalise self (s2 ! im2)]
                in (detect_stages self (s3 ! im2) 0 (stages self) [], s3))))"

text \<open>What a caller of \<open>detect\<close> gets back for an image \<open>im\<close>.\<close>

definition detect :: "resizer \<Rightarrow> Cascade \<Rightarrow> grid \<Rightarrow> error + int" where
  "detect rs self im =
     (case fst (detect_run rs self 0 [im]) of
        Inl e \<Rightarrow> Inl e
      | Inr (r, seen) \<Rightarrow> Inr r)"

text \<open>The classifiers \<open>detect\<close> evaluates on \<open>im\<close>, in order.\<close>

definition detect_evaluated :: "resizer \<Rightarrow> Cascade \<Rightarrow> grid \<Rightarrow> WeakClassifier list option" where
  "detect_evaluated rs self im =
     (case fst (detect_run rs self 0 [im]) of
        Inl e \<Rightarrow> None
      | Inr (r, seen) \<Rightarrow> Some seen)"

text \<open>The array the stage loop reads: the image, resized when its shape differs, then
  normalised.\<close>

definition normalised_image :: "resizer \<Rightarrow> Cascade \<Rightarrow> grid \<Rightarrow> error + grid" where
  "normalised_image rs self im =
     (if shape_of im \<noteq> (height self, width self)
      then (case cv2_resize rs im (width self, height self) of
              Inl e \<Rightarrow> Inl e
            | Inr g \<Rightarrow> Inr (normalise self g))
      else Inr (normalise self im))"

text \<open>
  The quantities the description of \<open>detect\<close> speaks of: the contribution of a weak
  classifier on a normalised image (\<open>pass_val\<close> when the feature's weighted sum is
  \<open>\<ge>\<close> the classifier's threshold, else \<open>fail_val\<close>), and the score of a stage.
\<close>

definition weighted_sum :: "Cascade \<Rightarrow> grid \<Rightarrow> WeakClassifier \<Rightarrow> real" where
  "weighted_sum self nim classifier =
     (case feature_to_array self (feature_idx classifier) of
        Inl e \<Rightarrow> 0
      | Inr feature_array \<Rightarrow> grid_dot feature_array nim)"

definition contribution :: "Cascade \<Rightarrow> grid \<Rightarrow> WeakClassifier \<Rightarrow> real" where
  "contribution self nim classifier =
     (if weighted_sum self nim classifier \<ge> threshold classifier
      then pass_val classifier else fail_val classifier)"

definition stage_score :: "Cascade \<Rightarrow> grid \<Rightarrow> Stage \<Rightarrow> real" where
  "stage_score self nim stage = (\<Sum>c\<leftarrow>weak_classifiers stage. contribution self nim c)"

definition stage_rejects :: "Cascade \<Rightarrow> grid \<Rightarrow> Stage \<Rightarrow> bool" where
  "stage_rejects self nim stage = (stage_score self nim stage < stage_threshold stage)"

text \<open>A classifier \<open>expands\<close> when the call of \<open>feature_to_array\<close> that evaluates
  it returns an array; a stage expands when all of its classifiers do.\<close>

definition expands :: "Cascade \<Rightarrow> WeakClassifier \<Rightarrow> bool" where
  "expands self classifier =
     (case feature_to_array self (feature_idx classifier) of
        Inl e \<Rightarrow> False
      | Inr feature_array \<Rightarrow> True)"

definition stage_expands :: "Cascade \<Rightarrow> Stage \<Rightarrow> bool" where
  "stage_expands self stage = list_all (expands self) (weak_classifiers stage)"

text \<open>The invariant of the data model: the dimensions are not negative and every
  \<open>feature_idx\<close> is an index into \<open>features\<close>.\<close>

definition valid_feature_refs :: "Cascade \<Rightarrow> bool" where
  "valid_feature_refs self =
     (0 \<le> height self \<and> 0 \<le> width self \<and>
      list_all (\<lambda>stage. list_all (\<lambda>c. 0 \<le> feature_idx c \<and>
                                        feature_idx c < int (length (features self)))
                           (weak_classifiers stage))
               (stages self))"

text \<open>
  A cascade of one pixel and three stages over the feature that is the pixel itself.
  On the image \<open>[[128]]\<close> the first stage passes and the second rejects; the
  classifier of the third stage names a feature that does not exist.
\<close>

definition pixel_feature :: "Rect list" where
  "pixel_feature = [\<lparr>rect_x = 0, rect_y = 0, rect_w = 1, rect_h = 1, weight = 1\<rparr>]"

definition three_stages :: Cascade where
  "three_stages =
     \<lparr>width = 1, height = 1,
      stages =
        [\<lparr>stage_threshold = 0, weak_classifiers =
            [\<lparr>feature_idx = 0, threshold = 1/4, fail_val = -1, pass_val = 1\<rparr>]\<rparr>,
         \<lparr>stage_threshold = 0, weak_classifiers =
            [\<lparr>feature_idx = 0, threshold = 3/4, fail_val = -1, pass_val = 1\<rparr>]\<rparr>,
         \<lparr>stage_threshold = 0, weak_classifiers =
            [\<lparr>feature_idx = 7, threshold = 0, fail_val = 1, pass_val = 1\<rparr>]\<rparr>],
      features = [pixel_feature]\<rparr>"

text \<open>A resizer that always fails: the images below have the cascade's shape.\<close>

definition no_resize :: resizer where
  "no_resize im dsize = None"

text \<open>A cascade of one pixel whose only stage rejects the black image.\<close>

definition one_stage :: Cascade where
  "one_stage =
     \<lparr>width = 1, height = 1,
      stages =
        [\<lparr>stage_threshold = 0, weak_classifiers =
            [\<lparr>feature_idx = 0, threshold = 1/2, fail_val = -1, pass_val = 1\<rparr>]\<rparr>],
      features = [pixel_feature]\<rparr>"

text \<open>
  The description of \<open>feature_to_array\<close>, in its own words: starting from the zero
  grid, every rectangle in turn adds its weight to every cell of
  \<open>[y, y+h) \<times> [x, x+w)\<close>.
\<close>

definition spec_add_rect :: "grid \<Rightarrow> Rect \<Rightarrow> grid" where
  "spec_add_rect g r =
     map (\<lambda>i. map (\<lambda>j. if covers r i j then g ! i ! j + weight r else g ! i ! j)
                 [0..<length (g ! i)])
         [0..<length g]"

definition spec_feature_grid :: "nat \<Rightarrow> nat \<Rightarrow> Rect list \<Rightarrow> grid" where
  "spec_feature_grid nrows ncols feature = foldl spec_add_rect (zeros nrows ncols) feature"

text \<open>The part of a rectangle's footprint that lies inside a grid of \<open>nrows\<close> rows and
  \<open>ncols\<close> columns: \<open>[y, min(y+h, nrows)) \<times> [x, min(x+w, ncols))\<close>.\<close>

definition clipped_covers :: "nat \<Rightarrow> nat \<Rightarrow> Rect \<Rightarrow> nat \<Rightarrow> nat \<Rightarrow> bool" where
  "clipped_covers nrows ncols r i j =
     (rect_y r \<le> int i \<and> int i < min (rect_y r + rect_h r) (int nrows) \<and>
      rect_x r \<le> int j \<and> int j < min (rect_x r + rect_w r) (int ncols))"

text \<open>Two overlapping rectangles on a grid of two rows and three columns.\<close>

definition overlap_rects :: "Rect list" where
  "overlap_rects =
     [\<lparr>rect_x = 0, rect_y = 0, rect_w = 2, rect_h = 2, weight = 1\<rparr>,
      \<lparr>rect_x = 1, rect_y = 0, rect_w = 2, rect_h = 1, weight = 2\<rparr>]"

definition overlap_cascade :: Cascade where
  "overlap_cascade = \<lparr>width = 3, height = 2, stages = [], features = [overlap_rects]\<rparr>"

text \<open>A rectangle that starts inside a grid of two rows and two columns and ends
  outside of it.\<close>

definition overhang_rects :: "Rect list" where
  "overhang_rects = [\<lparr>rect_x = 1, rect_y = 1, rect_w = 5, rect_h = 5, weight = 4\<rparr>]"

definition overhang_cascade :: Cascade where
  "overhang_cascade = \<lparr>width = 2, height = 2, stages = [], features = [overhang_rects]\<rparr>"

text \<open>A resizer that returns the intensity 128 in every cell.\<close>

definition flat_resize :: resizer where
  "flat_resize im dsize = Some (\<lambda>i j. 128)"

section \<open>\<open>Cascade.load\<close>\<close>

text \<open>
  \<open>xml.etree.ElementTree.parse\<close> is a library function; the model starts from the
  parsed document: an element has a tag, an optional text and its child elements in
  document order.
\<close>

datatype xml = Element (elem_tag: string) (elem_text: "string option") (elem_children: "xml list")

text \<open>\<open>n.findall(path)\<close> for a path of tag names \<open>'./t1/t2/...'\<close>: all matching
  descendants in document order. \<open>n.find(path)\<close> is the first of them, or \<open>None\<close>.\<close>

fun findall :: "string list \<Rightarrow> xml \<Rightarrow> xml list" where
  "findall [] n = [n]"
| "findall (t # path) n =
     concat (map (findall path) (filter (\<lambda>c. elem_tag c = t) (elem_children n)))"

definition find_first :: "string list \<Rightarrow> xml \<Rightarrow> xml option" where
  "find_first path n = (case findall path n of [] \<Rightarrow> None | e # rest \<Rightarrow> Some e)"

text \<open>\<open>s.strip()\<close> removes leading and trailing ASCII whitespace; \<open>s.split(' ')\<close>
  cuts at every single space.\<close>

definition is_space :: "char \<Rightarrow> bool" where
  "is_space c = (c \<in> set [CHR '' '', CHR 0x09, CHR 0x0A, CHR 0x0B, CHR 0x0C, CHR 0x0D])"

definition strip :: "string \<Rightarrow> string" where
  "strip s = rev (dropWhile is_space (rev (dropWhile is_space s)))"

fun split_space :: "string \<Rightarrow> string list" where
  "split_space [] = [[]]"
| "split_space (c # cs) =
     (if c = CHR '' '' then [] # split_space cs
      else (case split_space cs of [] \<Rightarrow> [[c]] | t # ts \<Rightarrow> (c # t) # ts))"

text \<open>Sequencing of steps that can raise: the first exception ends the computation.\<close>

definition and_then :: "error + 'a \<Rightarrow> ('a \<Rightarrow> error + 'b) \<Rightarrow> error + 'b" where
  "and_then m f = (case m of Inl e \<Rightarrow> Inl e | Inr v \<Rightarrow> f v)"

text \<open>A loop that appends one result per element to a list and stops at the first
  exception.\<close>

fun collect :: "('a \<Rightarrow> error + 'b) \<Rightarrow> 'a list \<Rightarrow> error + 'b list" where
  "collect f [] = Inr []"
| "collect f (x # xs) =
     (case f x of
        Inl e \<Rightarrow> Inl e
      | Inr v \<Rightarrow> (case collect f xs of Inl e \<Rightarrow> Inl e | Inr vs \<Rightarrow> Inr (v # vs)))"

text \<open>The built-in parsers \<open>int(s)\<close> and \<open>float(s)\<close> are parameters of the model; a
  string they do not accept raises \<open>ValueError\<close>.\<close>

record builtins =
  py_int :: "string \<Rightarrow> int option"
  py_float :: "string \<Rightarrow> real option"

definition to_int :: "builtins \<Rightarrow> string \<Rightarrow> error + int" where
  "to_int ps s = (case py_int ps s of None \<Rightarrow> Inl ValueError | Some v \<Rightarrow> Inr v)"

definition to_float :: "builtins \<Rightarrow> string \<Rightarrow> error + real" where
  "to_float ps s = (case py_float ps s of None \<Rightarrow> Inl ValueError | Some v \<Rightarrow> Inr v)"

text \<open>\<open>n.text.strip()\<close>, where \<open>n\<close> is the result of a \<open>find\<close>: \<open>None\<close> has no
  attribute \<open>text\<close>, and the text \<open>None\<close> of an empty element has no \<open>strip\<close>.\<close>

definition node_text :: "xml option \<Rightarrow> error + string" where
  "node_text n =
     (case n of
        None \<Rightarrow> Inl AttributeError
      | Some e \<Rightarrow> (case elem_text e of None \<Rightarrow> Inl AttributeError | Some t \<Rightarrow> Inr (strip t)))"

text \<open>\<open>_split_text_content(n)\<close>: \<open>n.text.strip().split(' ')\<close>\<close>

definition split_text_content :: "xml option \<Rightarrow> error + string list" where
  "split_text_content n = and_then (node_text n) (\<lambda>t. Inr (split_space t))"

text \<open>
  The body of the loop over \<open>stage_node.findall('weakClassifiers/_')\<close>:
  \<^verbatim>\<open>
  sp = cls._split_text_content(classifier_node.find('./internalNodes'))
  assert sp[0] == "0"
  assert sp[1] == "-1"
  feature_idx = int(sp[2])
  threshold = float(sp[3])
  sp = cls._split_text_content(classifier_node.find('./leafValues'))
  fail_val = float(sp[0])
  pass_val = float(sp[1])
  weak_classifiers.append(WeakClassifier(feature_idx, threshold, fail_val, pass_val))
  \<close>
  A failing \<open>assert\<close> raises \<open>AssertionError\<close> (the interpreter runs without
  \<open>-O\<close>).
\<close>

definition load_classifier :: "builtins \<Rightarrow> xml \<Rightarrow> error + WeakClassifier" where
  "load_classifier ps classifier_node =
     and_then (split_text_content (find_first [''internalNodes''] classifier_node)) (\<lambda>sp.
     and_then (py_index sp 0) (\<lambda>sp0. if sp0 \<noteq> ''0'' then Inl AssertionError else
     and_then (py_index sp 1) (\<lambda>sp1. if sp1 \<noteq> ''-1'' then Inl AssertionError else
     and_then (and_then (py_index sp 2) (to_int ps)) (\<lambda>fidx.
     and_then (and_then (py_index sp 3) (to_float ps)) (\<lambda>thr.
     and_then (split_text_content (find_first [''leafValues''] classifier_node)) (\<lambda>lv.
     and_then (and_then (py_index lv 0) (to_float ps)) (\<lambda>fv.
     and_then (and_then (py_index lv 1) (to_float ps)) (\<lambda>pv.
     Inr \<lparr>feature_idx = fidx, threshold = thr, fail_val = fv, pass_val = pv\<rparr>))))))))"

text \<open>The body of the loop over \<open>root.findall('./cascade/stages/_')\<close>.\<close>

definition load_stage :: "builtins \<Rightarrow> xml \<Rightarrow> error + Stage" where
  "load_stage ps stage_node =
     and_then (and_then (node_text (find_first [''stageThreshold''] stage_node)) (to_float ps))
       (\<lambda>thr.
     and_then (collect (load_classifier ps) (findall [''weakClassifiers'', ''_''] stage_node))
       (\<lambda>wcs.
     Inr \<lparr>stage_threshold = thr, weak_classifiers = wcs\<rparr>))"

text \<open>
  The body of the loop over \<open>feature_node.findall('./rects/_')\<close>:
  \<^verbatim>\<open>
  sp = cls._split_text_content(rect_node)
  x, y, w, h = (int(x) for x in sp[:4])
  weight = float(sp[4])
  feature.append(Rect(x, y, w, h, weight))
  \<close>
  Unpacking fewer than four values raises \<open>ValueError\<close>, as a failing \<open>int\<close> does.
\<close>

definition load_rect :: "builtins \<Rightarrow> xml \<Rightarrow> error + Rect" where
  "load_rect ps rect_node =
     and_then (split_text_content (Some rect_node)) (\<lambda>sp.
     and_then (collect (to_int ps) (take 4 sp)) (\<lambda>xywh.
     if length xywh \<noteq> 4 then Inl ValueError else
     and_then (and_then (py_index sp 4) (to_float ps)) (\<lambda>wt.
     Inr \<lparr>rect_x = xywh ! 0, rect_y = xywh ! 1, rect_w = xywh ! 2, rect_h = xywh ! 3,
          weight = wt\<rparr>)))"

definition load_feature :: "builtins \<Rightarrow> xml \<Rightarrow> error + Rect list" where
  "load_feature ps feature_node = collect (load_rect ps) (findall [''rects'', ''_''] feature_node)"

text \<open>
  \<^verbatim>\<open>
  width = int(root.find('./cascade/width').text.strip())
  height = int(root.find('./cascade/height').text.strip())
  stages = [] ... for stage_node in root.findall('./cascade/stages/_'): ...
  features = [] ... for feature_node in root.findall('./cascade/features/_'): ...
  return cls(width, height, stages, features)
  \<close>
\<close>

definition load :: "builtins \<Rightarrow> xml \<Rightarrow> error + Cascade" where
  "load ps doc =
     and_then (and_then (node_text (find_first [''cascade'', ''width''] doc)) (to_int ps))
       (\<lambda>wd.
     and_then (and_then (node_text (find_first [''cascade'', ''height''] doc)) (to_int ps))
       (\<lambda>ht.
     and_then (collect (load_stage ps) (findall [''cascade'', ''stages'', ''_''] doc))
       (\<lambda>sts.
     and_then (collect (load_feature ps) (findall [''cascade'', ''features'', ''_''] doc))
       (\<lambda>fts.
     Inr \<lparr>width = wd, height = ht, stages = sts, features = fts\<rparr>))))"

text \<open>The weak-classifier nodes of a document: the nodes the inner loop of \<open>load\<close>
  visits when nothing raises before.\<close>

definition classifier_nodes :: "xml \<Rightarrow> xml list" where
  "classifier_nodes doc =
     concat (map (findall [''weakClassifiers'', ''_'']) (findall [''cascade'', ''stages'', ''_''] doc))"

section \<open>\<open>CascadeModel\<close>\<close>

text \<open>
  The solver library (docplex) is used through variables, linear expressions and
  constraints. A variable is \<open>pixel_vars[x, y]\<close> or \<open>feature_vars[idx]\<close>; a linear
  expression is a list of terms (coefficient, variable); a constraint compares a linear
  expression with a constant. An assignment gives every variable its
  \<open>solution_value\<close>.
\<close>

datatype var = Pixel nat nat | Feature int

type_synonym linexpr = "(real \<times> var) list"

datatype sense = GE | LE

record constraint =
  ct_lhs :: linexpr
  ct_sense :: sense
  ct_rhs :: real

type_synonym assignment = "var \<Rightarrow> real"

definition eval_expr :: "assignment \<Rightarrow> linexpr \<Rightarrow> real" where
  "eval_expr a e = (\<Sum>(k, v)\<leftarrow>e. k * a v)"

definition holds :: "assignment \<Rightarrow> constraint \<Rightarrow> bool" where
  "holds a ct =
     (case ct_sense ct of
        GE \<Rightarrow> eval_expr a (ct_lhs ct) \<ge> ct_rhs ct
      | LE \<Rightarrow> eval_expr a (ct_lhs ct) \<le> ct_rhs ct)"

text \<open>
  \<^verbatim>\<open>
  sum(pixel_vars[x, y] * feature_array[y, x]
      for y in range(cascade.height)
      for x in range(cascade.width)
      if feature_array[y, x] != 0.)
  \<close>
\<close>

definition pixel_terms :: "nat \<Rightarrow> nat \<Rightarrow> grid \<Rightarrow> linexpr" where
  "pixel_terms nrows ncols feature_array =
     concat (map (\<lambda>y. concat (map (\<lambda>x. if feature_array ! y ! x \<noteq> 0
                                         then [(feature_array ! y ! x, Pixel x y)] else [])
                                [0..<ncols]))
                 [0..<nrows])"

text \<open>
  The body of the loop over \<open>stage.weak_classifiers\<close> in \<open>CascadeModel.__init__\<close>.
  \<open>fvars\<close> are the keys of the dictionary \<open>feature_vars\<close>; looking up another key raises
  \<open>KeyError\<close>.
  \<^verbatim>\<open>
  feature_array = cascade.feature_to_array(classifier.feature_idx)
  feature_array /= (cascade.width * cascade.height)
  if classifier.pass_val >= classifier.fail_val:
      adjusted_classifier_threshold = (classifier.threshold + epsilon)
      model.add_constraint(sum(...) - adjusted_classifier_threshold *
                           feature_vars[classifier.feature_idx] >= 0)
  else:
      adjusted_classifier_threshold = (classifier.threshold - epsilon)
      model.add_constraint(sum(...) + adjusted_classifier_threshold *
                           feature_vars[classifier.feature_idx] <= adjusted_classifier_threshold)
  \<close>
\<close>

definition scaled_feature_array :: "Cascade \<Rightarrow> grid \<Rightarrow> grid" where
  "scaled_feature_array casc feature_array =
     map (map (\<lambda>v. v / real_of_int (width casc * height casc))) feature_array"

definition classifier_constraint ::
  "Cascade \<Rightarrow> int list \<Rightarrow> real \<Rightarrow> WeakClassifier \<Rightarrow> error + constraint" where
  "classifier_constraint casc fvars epsilon classifier =
     (case feature_to_array casc (feature_idx classifier) of
        Inl e \<Rightarrow> Inl e
      | Inr fa \<Rightarrow>
          (let feature_array = scaled_feature_array casc fa;
               pixel_sum = pixel_terms (nat (height casc)) (nat (width casc)) feature_array
           in if feature_idx classifier \<notin> set fvars then Inl KeyError
              else if pass_val classifier \<ge> fail_val classifier
              then (let adjusted_classifier_threshold = threshold classifier + epsilon
                    in Inr \<lparr>ct_lhs = pixel_sum @
                               [(- adjusted_classifier_threshold,
                                 Feature (feature_idx classifier))],
                            ct_sense = GE, ct_rhs = 0\<rparr>)
              else (let adjusted_classifier_threshold = threshold classifier - epsilon
                    in Inr \<lparr>ct_lhs = pixel_sum @
                               [(adjusted_classifier_threshold,
                                 Feature (feature_idx classifier))],
                            ct_sense = LE, ct_rhs = adjusted_classifier_threshold\<rparr>)))"

text \<open>
  The stage constraint, in exact arithmetic. Its look-ups in \<open>feature_vars\<close> repeat
  those of the loop before it, so they cannot raise. The section on the stage constraint
  in float64 gives the same lines with the rounding of each operation, and with the
  case of a stage without classifiers.
  \<^verbatim>\<open>
  fail_val_total = sum(c.fail_val for c in stage.weak_classifiers)
  adjusted_stage_threshold = stage.threshold + epsilon
  model.add_constraint(sum((c.pass_val - c.fail_val) * feature_vars[c.feature_idx]
                           for c in stage.weak_classifiers) >=
                       adjusted_stage_threshold - fail_val_total)
  \<close>
\<close>

definition stage_constraint :: "real \<Rightarrow> Stage \<Rightarrow> constraint" where
  "stage_constraint epsilon stage =
     (let fail_val_total = (\<Sum>c\<leftarrow>weak_classifiers stage. fail_val c);
          adjusted_stage_threshold = stage_threshold stage + epsilon
      in \<lparr>ct_lhs = map (\<lambda>c. (pass_val c - fail_val c, Feature (feature_idx c)))
                       (weak_classifiers stage),
          ct_sense = GE,
          ct_rhs = adjusted_stage_threshold - fail_val_total\<rparr>)"

text \<open>The constraints one pass of the loop over \<open>cascade.stages\<close> adds, in order.\<close>

definition stage_constraints ::
  "Cascade \<Rightarrow> int list \<Rightarrow> real \<Rightarrow> Stage \<Rightarrow> error + constraint list" where
  "stage_constraints casc fvars epsilon stage =
     (case collect (classifier_constraint casc fvars epsilon) (weak_classifiers stage) of
        Inl e \<Rightarrow> Inl e
      | Inr cts \<Rightarrow> Inr (cts @ [stage_constraint epsilon stage]))"

text \<open>
  The object \<open>CascadeModel.__init__\<close> builds: the cascade, the keys of \<open>pixel_vars\<close>
  (continuous variables with bounds 0 and 1), the keys of \<open>feature_vars\<close> (binary
  variables) and the constraints added to the model.
\<close>

record CascadeModel =
  cascade :: Cascade
  pixel_vars :: "(nat \<times> nat) list"
  feature_vars :: "int list"
  constraints :: "constraint list"

definition CascadeModel_init :: "Cascade \<Rightarrow> real \<Rightarrow> error + CascadeModel" where
  "CascadeModel_init casc epsilon =
     (let pvars = concat (map (\<lambda>y. map (\<lambda>x. (x, y)) [0..<nat (width casc)])
                              [0..<nat (height casc)]);
          fvars = map int [0..<length (features casc)]
      in case collect (stage_constraints casc fvars epsilon) (stages casc) of
           Inl e \<Rightarrow> Inl e
         | Inr cts \<Rightarrow>
             Inr \<lparr>cascade = casc, pixel_vars = pvars, feature_vars = fvars,
                  constraints = concat cts\<rparr>)"

text \<open>An assignment satisfies a model when every pixel variable is within its bounds,
  every feature variable is 0 or 1, and every constraint holds.\<close>

definition satisfies :: "assignment \<Rightarrow> CascadeModel \<Rightarrow> bool" where
  "satisfies a m =
     (list_all (\<lambda>(x, y). 0 \<le> a (Pixel x y) \<and> a (Pixel x y) \<le> 1) (pixel_vars m) \<and>
      list_all (\<lambda>idx. a (Feature idx) = 0 \<or> a (Feature idx) = 1) (feature_vars m) \<and>
      list_all (holds a) (constraints m))"

section \<open>\<open>find_min_face\<close> and the script\<close>

text \<open>
  The solver is a parameter: given the model and the objective to minimise it returns
  an assignment, or nothing. Printing the model and exporting it to a file are left
  out.
  \<^verbatim>\<open>
  def find_min_face(cascade_file):
      cascade = Cascade.load(cascade_file)
      cascade_model = CascadeModel(cascade)
      cascade_model.model.set_objective("min",
                               sum(v for v in cascade_model.pixel_vars.values()))
      if not cascade_model.model.solve():
          raise Exception("Failed to find solution")
      sol = numpy.array([[cascade_model.pixel_vars[x, y].solution_value
                          for x in range(cascade.width)]
                         for y in range(cascade.height)])
      return sol
  \<close>
\<close>

type_synonym solver = "CascadeModel \<Rightarrow> linexpr \<Rightarrow> assignment option"

definition solution_grid :: "Cascade \<Rightarrow> assignment \<Rightarrow> grid" where
  "solution_grid casc a =
     map (\<lambda>y. map (\<lambda>x. a (Pixel x y)) [0..<nat (width casc)]) [0..<nat (height casc)]"

definition find_min_face :: "builtins \<Rightarrow> solver \<Rightarrow> xml \<Rightarrow> error + grid" where
  "find_min_face ps solve cascade_file =
     and_then (load ps cascade_file) (\<lambda>casc.
     and_then (CascadeModel_init casc 0) (\<lambda>cascade_model.
     (case solve cascade_model (map (\<lambda>(x, y). (1, Pixel x y)) (pixel_vars cascade_model)) of
        None \<Rightarrow> Inl SolveFailed
      | Some a \<Rightarrow> Inr (solution_grid casc a))))"

text \<open>
  The script after the definitions (writing the picture is left out):
  \<^verbatim>\<open>
  im = find_min_face(sys.argv[1])
  im *= 256.
  ...
  cascade = Cascade.load(sys.argv[1])
  assert cascade.detect(im) == 1
  \<close>
  \<open>times_256\<close> is the image the script hands to \<open>detect\<close>.
\<close>

definition times_256 :: "grid \<Rightarrow> grid" where
  "times_256 im = map (map (\<lambda>v. v * 256)) im"

definition script :: "builtins \<Rightarrow> solver \<Rightarrow> resizer \<Rightarrow> xml \<Rightarrow> error + grid" where
  "script ps solve rs cascade_file =
     and_then (find_min_face ps solve cascade_file) (\<lambda>sol.
     (let im = times_256 sol in
      and_then (load ps cascade_file) (\<lambda>casc.
      and_then (detect rs casc im) (\<lambda>r.
      if r = 1 then Inr im else Inl AssertionError))))"

section \<open>The statements of the constraint encoding\<close>


text \<open>The sum over all pixels of \<open>pixel_var(x, y)\<close> times the feature grid at \<open>(y, x)\<close>
  scaled by \<open>1 / (width * height)\<close>.\<close>

definition scaled_pixel_sum :: "Cascade \<Rightarrow> grid \<Rightarrow> assignment \<Rightarrow> real" where
  "scaled_pixel_sum casc fa a =
     (\<Sum>y\<leftarrow>[0..<nat (height casc)]. \<Sum>x\<leftarrow>[0..<nat (width casc)].
        a (Pixel x y) * (fa ! y ! x / real_of_int (width casc * height casc)))"

text \<open>The inequality the description gives for the constraint of a weak classifier
  \<open>c\<close> with feature grid \<open>fa\<close>.\<close>

definition classifier_formula ::
  "Cascade \<Rightarrow> real \<Rightarrow> WeakClassifier \<Rightarrow> grid \<Rightarrow> assignment \<Rightarrow> bool" where
  "classifier_formula casc epsilon c fa a =
     (if pass_val c \<ge> fail_val c
      then scaled_pixel_sum casc fa a - (threshold c + epsilon) * a (Feature (feature_idx c)) \<ge> 0
      else scaled_pixel_sum casc fa a + (threshold c - epsilon) * a (Feature (feature_idx c))
             \<le> threshold c - epsilon)"

text \<open>Every classifier of the cascade has \<open>pass_val \<ge> fail_val\<close>.\<close>

definition rewards_presence :: "Cascade \<Rightarrow> bool" where
  "rewards_presence casc =
     list_all (\<lambda>stage. list_all (\<lambda>c. fail_val c \<le> pass_val c) (weak_classifiers stage))
              (stages casc)"

section \<open>A cascade with a tie\<close>

text \<open>
  One pixel, two features that are both the pixel itself, and one stage of two
  classifiers with the same threshold \<open>1/2\<close>: the first rewards the feature
  (\<open>pass_val = 1\<close>, \<open>fail_val = -1\<close>), the second its absence (\<open>pass_val = -1\<close>,
  \<open>fail_val = 1\<close>). The stage threshold is 2.
\<close>

definition tie_present :: WeakClassifier where
  "tie_present = \<lparr>feature_idx = 0, threshold = 1/2, fail_val = -1, pass_val = 1\<rparr>"

definition tie_absent :: WeakClassifier where
  "tie_absent = \<lparr>feature_idx = 1, threshold = 1/2, fail_val = 1, pass_val = -1\<rparr>"

definition tie_stage :: Stage where
  "tie_stage = \<lparr>stage_threshold = 2, weak_classifiers = [tie_present, tie_absent]\<rparr>"

definition tie_cascade :: Cascade where
  "tie_cascade =
     \<lparr>width = 1, height = 1, stages = [tie_stage],
      features = [pixel_feature, pixel_feature]\<rparr>"

text \<open>The model \<open>CascadeModel(tie_cascade)\<close> with the default \<open>epsilon = 0\<close>.\<close>

definition tie_model :: CascadeModel where
  "tie_model =
     \<lparr>cascade = tie_cascade, pixel_vars = [(0, 0)], feature_vars = [0, 1],
      constraints =
        [\<lparr>ct_lhs = [(1, Pixel 0 0), (- (1/2), Feature 0)], ct_sense = GE, ct_rhs = 0\<rparr>,
         \<lparr>ct_lhs = [(1, Pixel 0 0), (1/2, Feature 1)], ct_sense = LE, ct_rhs = 1/2\<rparr>,
         \<lparr>ct_lhs = [(2, Feature 0), (- 2, Feature 1)], ct_sense = GE, ct_rhs = 2\<rparr>]\<rparr>"

text \<open>The pixel at \<open>1/2\<close>, the first feature variable set, the second not.\<close>

definition tie_solution :: assignment where
  "tie_solution v = (case v of Pixel x y \<Rightarrow> 1/2 | Feature idx \<Rightarrow> if idx = 0 then 1 else 0)"

definition tie_solver :: solver where
  "tie_solver m objective = Some tie_solution"

text \<open>The cascade description of \<open>tie_cascade\<close> as a document; \<open>nodes\<close> is the text of
  the \<open>internalNodes\<close> element of the first classifier.\<close>

definition cascade_document :: "string \<Rightarrow> xml" where
  "cascade_document nodes =
     Element ''opencv_storage'' None
       [Element ''cascade'' None
          [Element ''width'' (Some ''1'') [],
           Element ''height'' (Some ''1'') [],
           Element ''stages'' None
             [Element ''_'' None
                [Element ''stageThreshold'' (Some ''2'') [],
                 Element ''weakClassifiers'' None
                   [Element ''_'' None
                      [Element ''internalNodes'' (Some nodes) [],
                       Element ''leafValues'' (Some ''-1 1'') []],
                    Element ''_'' None
                      [Element ''internalNodes'' (Some ''0 -1 1 0.5'') [],
                       Element ''leafValues'' (Some ''1 -1'') []]]]],
           Element ''features'' None
             [Element ''_'' None
                [Element ''rects'' None [Element ''_'' (Some ''0 0 1 1 1.'') []]],
              Element ''_'' None
                [Element ''rects'' None [Element ''_'' (Some ''0 0 1 1 1.'') []]]]]]"

definition tie_document :: xml where
  "tie_document = cascade_document ''0 -1 0 0.5''"

text \<open>The same description with a first classifier whose node record starts with
  \<open>1\<close> instead of the sentinel \<open>0\<close>.\<close>

definition bad_document :: xml where
  "bad_document = cascade_document ''1 -1 0 0.5''"

text \<open>Parsers that know the numerals of these documents.\<close>

definition table_builtins :: builtins where
  "table_builtins =
     \<lparr>py_int = map_of [(''0'', 0), (''1'', 1), (''-1'', - 1)],
      py_float = map_of [(''0.5'', 1/2), (''1'', 1), (''-1'', - 1), (''2'', 2), (''1.'', 1)]\<rparr>"

text \<open>The model \<open>CascadeModel(one_stage)\<close> with \<open>epsilon = 0\<close>.\<close>

definition one_model :: CascadeModel where
  "one_model =
     \<lparr>cascade = one_stage, pixel_vars = [(0, 0)], feature_vars = [0],
      constraints =
        [\<lparr>ct_lhs = [(1, Pixel 0 0), (- (1/2), Feature 0)], ct_sense = GE, ct_rhs = 0\<rparr>,
         \<lparr>ct_lhs = [(2, Feature 0)], ct_sense = GE, ct_rhs = 1\<rparr>]\<rparr>"

text \<open>The first weak-classifier node of \<open>bad_document\<close>.\<close>

definition bad_node :: xml where
  "bad_node = Element ''_'' None
                [Element ''internalNodes'' (Some ''1 -1 0 0.5'') [],
                 Element ''leafValues'' (Some ''-1 1'') []]"

section \<open>The stage constraint in float64\<close>





















section \<open>Feature expansion: shape and cell values\<close>

lemma has_shape_zeros: "has_shape n m (zeros n m)"
  by (simp add: has_shape_def zeros_def list_all_iff)

lemma zeros_nth: "i < n \<Longrightarrow> j < m \<Longrightarrow> zeros n m ! i ! j = 0"
  by (simp add: zeros_def)

lemma has_shape_row: "has_shape n m g \<Longrightarrow> i < n \<Longrightarrow> length (g ! i) = m"
  by (simp add: has_shape_def list_all_length)

lemma has_shape_add_to_slice:
  assumes "has_shape n m g"
  shows "has_shape n m (add_to_slice g r)"
proof -
  have len: "length g = n" and rows: "\<And>i. i < n \<Longrightarrow> length (g ! i) = m"
    using assms by (simp_all add: has_shape_def list_all_length)
  show ?thesis
    unfolding has_shape_def list_all_length add_to_slice_def Let_def
    by (simp add: len rows)
qed

lemma has_shape_foldl:
  "has_shape n m g \<Longrightarrow> has_shape n m (foldl add_to_slice g rs)"
  by (induction rs arbitrary: g) (simp_all add: has_shape_add_to_slice)

lemma add_to_slice_nth:
  assumes "has_shape n m g" "i < n" "j < m"
  shows "add_to_slice g r ! i ! j = g ! i ! j + (if in_slice n m r i j then weight r else 0)"
proof -
  have len: "length g = n" and row: "length (g ! i) = m"
    using assms by (simp_all add: has_shape_def list_all_length)
  show ?thesis
    unfolding add_to_slice_def Let_def in_slice_def
    using assms(2,3) by (simp add: len row)
qed

lemma foldl_add_to_slice_nth:
  assumes "has_shape n m g" "i < n" "j < m"
  shows "foldl add_to_slice g rs ! i ! j =
           g ! i ! j + (\<Sum>r\<leftarrow>rs. if in_slice n m r i j then weight r else 0)"
  using assms(1)
proof (induction rs arbitrary: g)
  case Nil
  then show ?case by simp
next
  case (Cons r rs)
  have "has_shape n m (add_to_slice g r)"
    using Cons.prems by (rule has_shape_add_to_slice)
  from Cons.IH [OF this] show ?case
    using add_to_slice_nth [OF Cons.prems assms(2,3)] by simp
qed

lemma in_slice_nonneg:
  assumes "nonneg_rect r" "i < n" "j < m"
  shows "in_slice n m r i j = covers r i j"
  using assms unfolding in_slice_def covers_def nonneg_rect_def slice_bound_def
  by (auto simp: min_def)

lemma add_to_slice_spec:
  assumes "has_shape n m g" "nonneg_rect r"
  shows "add_to_slice g r = spec_add_rect g r"
proof (rule nth_equalityI)
  show "length (add_to_slice g r) = length (spec_add_rect g r)"
    by (simp add: add_to_slice_def spec_add_rect_def Let_def)
next
  fix i assume "i < length (add_to_slice g r)"
  then have i: "i < n"
    using assms(1) by (simp add: add_to_slice_def Let_def has_shape_def)
  have len: "length g = n" using assms(1) by (simp add: has_shape_def)
  have row: "length (g ! i) = m" using assms(1) i by (rule has_shape_row)
  have sh: "has_shape n m (add_to_slice g r)"
    using assms(1) by (rule has_shape_add_to_slice)
  show "add_to_slice g r ! i = spec_add_rect g r ! i"
  proof (rule nth_equalityI)
    show "length (add_to_slice g r ! i) = length (spec_add_rect g r ! i)"
      using has_shape_row [OF sh i] i by (simp add: spec_add_rect_def len row)
  next
    fix j assume "j < length (add_to_slice g r ! i)"
    then have j: "j < m" using has_shape_row [OF sh i] by simp
    show "add_to_slice g r ! i ! j = spec_add_rect g r ! i ! j"
      using add_to_slice_nth [OF assms(1) i j, of r] in_slice_nonneg [OF assms(2) i j] i j
      by (simp add: spec_add_rect_def len row)
  qed
qed

lemma foldl_add_to_slice_spec:
  "has_shape n m g \<Longrightarrow> list_all nonneg_rect rs \<Longrightarrow>
   foldl add_to_slice g rs = foldl spec_add_rect g rs"
proof (induction rs arbitrary: g)
  case Nil
  then show ?case by simp
next
  case (Cons r rs)
  have r: "nonneg_rect r" and rs: "list_all nonneg_rect rs"
    using Cons.prems(2) by simp_all
  have eq: "add_to_slice g r = spec_add_rect g r"
    using Cons.prems(1) r by (rule add_to_slice_spec)
  have "has_shape n m (add_to_slice g r)"
    using Cons.prems(1) by (rule has_shape_add_to_slice)
  from Cons.IH [OF this rs] show ?case by (simp add: eq)
qed

lemma sum_list_if_cong:
  "(\<And>r. r \<in> set rs \<Longrightarrow> P r = Q r) \<Longrightarrow>
   (\<Sum>r\<leftarrow>rs. if P r then f r else (0::real)) = (\<Sum>r\<leftarrow>rs. if Q r then f r else 0)"
  by (induction rs) simp_all

lemma feature_to_array_Inr:
  assumes "0 \<le> height self" "0 \<le> width self"
    and "py_index (features self) fidx = Inr feature"
  shows "feature_to_array self fidx =
           Inr (foldl add_to_slice (zeros (nat (height self)) (nat (width self))) feature)"
  using assms by (simp add: feature_to_array_def)

lemma clipped_covers_iff:
  "i < n \<Longrightarrow> j < m \<Longrightarrow> clipped_covers n m r i j = covers r i j"
  by (auto simp: clipped_covers_def covers_def)

text \<open>
  C6. \<open>feature_to_array\<close> returns the grid of \<open>height\<close> rows and \<open>width\<close> columns that
  the description builds: the zero grid with, for every rectangle of the feature in
  turn, the rectangle's weight added to every cell of \<open>[y, y+h) \<times> [x, x+w)\<close>
  (the fields of a rectangle are not negative, as the data model says). Each cell
  holds the sum of the weights of the rectangles that cover it; for a feature of two
  rectangles, a cell covered by both holds the sum of the two weights.
\<close>

theorem feature_to_array_additive:
  assumes "0 \<le> height self" and "0 \<le> width self"
    and "py_index (features self) fidx = Inr feature"
    and "list_all nonneg_rect feature"
  shows "feature_to_array self fidx =
           Inr (spec_feature_grid (nat (height self)) (nat (width self)) feature) \<and>
         has_shape (nat (height self)) (nat (width self))
           (spec_feature_grid (nat (height self)) (nat (width self)) feature) \<and>
         (\<forall>i j. i < nat (height self) \<and> j < nat (width self) \<longrightarrow>
            spec_feature_grid (nat (height self)) (nat (width self)) feature ! i ! j =
              (\<Sum>r\<leftarrow>feature. if covers r i j then weight r else 0)) \<and>
         (\<forall>r1 r2 i j. feature = [r1, r2] \<and> i < nat (height self) \<and> j < nat (width self) \<and>
            covers r1 i j \<and> covers r2 i j \<longrightarrow>
            spec_feature_grid (nat (height self)) (nat (width self)) feature ! i ! j =
              weight r1 + weight r2)"
proof -
  let ?n = "nat (height self)" and ?m = "nat (width self)"
  let ?G = "spec_feature_grid ?n ?m feature"
  have eq: "foldl add_to_slice (zeros ?n ?m) feature = ?G"
    unfolding spec_feature_grid_def
    using has_shape_zeros assms(4) by (rule foldl_add_to_slice_spec)
  have ret: "feature_to_array self fidx = Inr ?G"
    using feature_to_array_Inr [OF assms(1-3)] eq by simp
  have shape: "has_shape ?n ?m ?G"
    using has_shape_foldl [OF has_shape_zeros, of ?n ?m feature] eq by simp
  have cell: "?G ! i ! j = (\<Sum>r\<leftarrow>feature. if covers r i j then weight r else 0)"
    if ij: "i < ?n" "j < ?m" for i j
  proof -
    have "?G ! i ! j = (\<Sum>r\<leftarrow>feature. if in_slice ?n ?m r i j then weight r else 0)"
      using foldl_add_to_slice_nth [OF has_shape_zeros ij, of feature] eq
      by (simp add: zeros_nth ij)
    also have "\<dots> = (\<Sum>r\<leftarrow>feature. if covers r i j then weight r else 0)"
    proof (rule sum_list_if_cong)
      fix r assume "r \<in> set feature"
      then have "nonneg_rect r" using assms(4) by (simp add: list_all_iff)
      then show "in_slice ?n ?m r i j = covers r i j" using ij by (rule in_slice_nonneg)
    qed
    finally show ?thesis .
  qed
  have two: "?G ! i ! j = weight r1 + weight r2"
    if "feature = [r1, r2]" "i < ?n" "j < ?m" "covers r1 i j" "covers r2 i j" for r1 r2 i j
    using cell [OF that(2,3)] that(1,4,5) by simp
  show ?thesis using ret shape cell two by blast
qed

theorem feature_to_array_additive_witness:
  "0 \<le> height overlap_cascade \<and> 0 \<le> width overlap_cascade \<and>
   py_index (features overlap_cascade) 0 = Inr overlap_rects \<and>
   list_all nonneg_rect overlap_rects \<and>
   feature_to_array overlap_cascade 0 = Inr (spec_feature_grid 2 3 overlap_rects) \<and>
   spec_feature_grid 2 3 overlap_rects = [[1, 3, 2], [1, 1, 0]] \<and>
   covers (overlap_rects ! 0) 0 1 \<and> covers (overlap_rects ! 1) 0 1 \<and>
   spec_feature_grid 2 3 overlap_rects ! 0 ! 1 =
     weight (overlap_rects ! 0) + weight (overlap_rects ! 1)"
proof -
  have h1: "0 \<le> height overlap_cascade" and h2: "0 \<le> width overlap_cascade"
    by (simp_all add: overlap_cascade_def)
  have h3: "py_index (features overlap_cascade) 0 = Inr overlap_rects"
    by (simp add: overlap_cascade_def py_index_def)
  have h4: "list_all nonneg_rect overlap_rects"
    by (simp add: overlap_rects_def nonneg_rect_def)
  have dims: "nat (height overlap_cascade) = 2" "nat (width overlap_cascade) = 3"
    by (simp_all add: overlap_cascade_def)
  have g: "spec_feature_grid 2 3 overlap_rects = [[1, 3, 2], [1, 1, 0]]"
    by code_simp
  have c: "covers (overlap_rects ! 0) 0 1" "covers (overlap_rects ! 1) 0 1"
    by (simp_all add: overlap_rects_def covers_def)
  have w: "weight (overlap_rects ! 0) + weight (overlap_rects ! 1) = 3"
    by (simp add: overlap_rects_def)
  from feature_to_array_additive [OF h1 h2 h3 h4]
  have "feature_to_array overlap_cascade 0 = Inr (spec_feature_grid 2 3 overlap_rects)"
    by (simp add: dims)
  then show ?thesis using h1 h2 h3 h4 g c w by simp
qed

text \<open>
  C9. For a feature whose rectangles have non-negative \<open>x\<close>, \<open>y\<close>, \<open>w\<close>, \<open>h\<close>,
  \<open>feature_to_array\<close> returns a grid (it raises nothing), also when a rectangle
  reaches beyond the grid: the grid has \<open>height\<close> rows and \<open>width\<close> columns, and a
  rectangle's weight is added exactly to the cells of
  \<open>[y, min(y+h, height)) \<times> [x, min(x+w, width))\<close>.
\<close>

theorem feature_to_array_total_clipped:
  assumes "0 \<le> height self" and "0 \<le> width self"
    and "py_index (features self) fidx = Inr feature"
    and "list_all nonneg_rect feature"
  shows "\<exists>out. feature_to_array self fidx = Inr out \<and>
           has_shape (nat (height self)) (nat (width self)) out \<and>
           (\<forall>i j. i < nat (height self) \<and> j < nat (width self) \<longrightarrow>
              out ! i ! j =
                (\<Sum>r\<leftarrow>feature.
                   if clipped_covers (nat (height self)) (nat (width self)) r i j
                   then weight r else 0))"
proof -
  let ?n = "nat (height self)" and ?m = "nat (width self)"
  let ?out = "foldl add_to_slice (zeros ?n ?m) feature"
  have ret: "feature_to_array self fidx = Inr ?out"
    using assms(1-3) by (rule feature_to_array_Inr)
  have shape: "has_shape ?n ?m ?out"
    using has_shape_zeros by (rule has_shape_foldl)
  have cell: "?out ! i ! j = (\<Sum>r\<leftarrow>feature. if clipped_covers ?n ?m r i j then weight r else 0)"
    if ij: "i < ?n" "j < ?m" for i j
  proof -
    have "?out ! i ! j = (\<Sum>r\<leftarrow>feature. if in_slice ?n ?m r i j then weight r else 0)"
      using foldl_add_to_slice_nth [OF has_shape_zeros ij, of feature]
      by (simp add: zeros_nth ij)
    also have "\<dots> = (\<Sum>r\<leftarrow>feature. if clipped_covers ?n ?m r i j then weight r else 0)"
    proof (rule sum_list_if_cong)
      fix r assume "r \<in> set feature"
      then have "nonneg_rect r" using assms(4) by (simp add: list_all_iff)
      then have "in_slice ?n ?m r i j = covers r i j" using ij by (rule in_slice_nonneg)
      then show "in_slice ?n ?m r i j = clipped_covers ?n ?m r i j"
        using clipped_covers_iff [OF ij] by simp
    qed
    finally show ?thesis .
  qed
  show ?thesis using ret shape cell by blast
qed

theorem feature_to_array_total_clipped_witness:
  "0 \<le> height overhang_cascade \<and> 0 \<le> width overhang_cascade \<and>
   py_index (features overhang_cascade) 0 = Inr overhang_rects \<and>
   list_all nonneg_rect overhang_rects \<and>
   \<not> int (nat (width overhang_cascade)) \<ge> rect_x (hd overhang_rects) + rect_w (hd overhang_rects) \<and>
   (\<exists>out. feature_to_array overhang_cascade 0 = Inr out \<and> has_shape 2 2 out \<and>
          out = [[0, 0], [0, 4]])"
proof -
  have h1: "0 \<le> height overhang_cascade" and h2: "0 \<le> width overhang_cascade"
    by (simp_all add: overhang_cascade_def)
  have h3: "py_index (features overhang_cascade) 0 = Inr overhang_rects"
    by (simp add: overhang_cascade_def py_index_def)
  have h4: "list_all nonneg_rect overhang_rects"
    by (simp add: overhang_rects_def nonneg_rect_def)
  have dims: "nat (height overhang_cascade) = 2" "nat (width overhang_cascade) = 2"
    by (simp_all add: overhang_cascade_def)
  have v: "feature_to_array overhang_cascade 0 = Inr [[0, 0], [0, 4]]"
    by code_simp
  have over: "\<not> int (nat (width overhang_cascade)) \<ge>
                rect_x (hd overhang_rects) + rect_w (hd overhang_rects)"
    by (simp add: overhang_cascade_def overhang_rects_def)
  from feature_to_array_total_clipped [OF h1 h2 h3 h4]
  obtain out where "feature_to_array overhang_cascade 0 = Inr out" "has_shape 2 2 out"
    by (auto simp: dims)
  then show ?thesis using h1 h2 h3 h4 v over by simp
qed

section \<open>\<open>Cascade.detect\<close>: the stage loop and the store\<close>

lemma expandsD: "expands self c \<Longrightarrow> \<exists>fa. feature_to_array self (feature_idx c) = Inr fa"
  by (simp add: expands_def split: sum.splits)

lemma stage_total_expands:
  "list_all (expands self) cls \<Longrightarrow>
   stage_total self nim cls (tot, seen) =
     Inr (tot + (\<Sum>c\<leftarrow>cls. contribution self nim c), seen @ cls)"
proof (induction cls arbitrary: tot seen)
  case Nil
  then show ?case by simp
next
  case (Cons c cls)
  from Cons.prems obtain fa where fa: "feature_to_array self (feature_idx c) = Inr fa"
    using expandsD by auto
  have rest: "list_all (expands self) cls" using Cons.prems by simp
  show ?case
    by (simp add: fa Cons.IH [OF rest] contribution_def weighted_sum_def)
qed

lemma stage_total_score:
  "stage_expands self stage \<Longrightarrow>
   stage_total self nim (weak_classifiers stage) (0, seen) =
     Inr (stage_score self nim stage, seen @ weak_classifiers stage)"
  by (simp add: stage_expands_def stage_total_expands stage_score_def)

lemma detect_stages_accept:
  "list_all (stage_expands self) sts \<Longrightarrow>
   list_all (\<lambda>st. \<not> stage_rejects self nim st) sts \<Longrightarrow>
   detect_stages self nim k sts seen = Inr (1, seen @ concat (map weak_classifiers sts))"
proof (induction sts arbitrary: k seen)
  case Nil
  then show ?case by simp
next
  case (Cons st sts)
  have st: "stage_expands self st" "\<not> stage_rejects self nim st"
    and rest: "list_all (stage_expands self) sts"
              "list_all (\<lambda>st. \<not> stage_rejects self nim st) sts"
    using Cons.prems by simp_all
  show ?case
    using st(2) by (simp add: stage_total_score [OF st(1)] stage_rejects_def Cons.IH [OF rest])
qed

lemma detect_stages_first_reject:
  "i < length sts \<Longrightarrow>
   list_all (stage_expands self) (take (Suc i) sts) \<Longrightarrow>
   stage_rejects self nim (sts ! i) \<Longrightarrow>
   (\<forall>j<i. \<not> stage_rejects self nim (sts ! j)) \<Longrightarrow>
   detect_stages self nim k sts seen =
     Inr (- (k + int i), seen @ concat (map weak_classifiers (take (Suc i) sts)))"
proof (induction sts arbitrary: i k seen)
  case Nil
  then show ?case by simp
next
  case (Cons st sts)
  have st: "stage_expands self st" using Cons.prems(2) by simp
  show ?case
  proof (cases i)
    case 0
    then show ?thesis
      using Cons.prems(3) by (simp add: stage_total_score [OF st] stage_rejects_def)
  next
    case (Suc i')
    have a: "i' < length sts" using Cons.prems(1) Suc by simp
    have b: "list_all (stage_expands self) (take (Suc i') sts)"
      using Cons.prems(2) Suc by simp
    have c: "stage_rejects self nim (sts ! i')" using Cons.prems(3) Suc by simp
    have d: "\<forall>j<i'. \<not> stage_rejects self nim (sts ! j)"
      using Cons.prems(4) Suc by auto
    have e: "\<not> stage_rejects self nim st" using Cons.prems(4) Suc by auto
    show ?thesis
      using e Suc
      by (simp add: stage_total_score [OF st] stage_rejects_def Cons.IH [OF a b c d])
  qed
qed

lemma detect_run_fst:
  "fst (detect_run rs self a s) =
     (case normalised_image rs self (s ! a) of
        Inl e \<Rightarrow> Inl e
      | Inr nim \<Rightarrow> detect_stages self nim 0 (stages self) [])"
  by (simp add: detect_run_def normalised_image_def alloc_def Let_def nth_append
           split: sum.splits)

lemma detect_run_frame:
  "b < length s \<Longrightarrow> snd (detect_run rs self a s) ! b = s ! b"
  by (auto simp: detect_run_def alloc_def Let_def nth_append split: sum.splits)
lemma detect_eq:
  "detect rs self im =
     (case normalised_image rs self im of
        Inl e \<Rightarrow> Inl e
      | Inr nim \<Rightarrow>
          (case detect_stages self nim 0 (stages self) [] of
             Inl e \<Rightarrow> Inl e
           | Inr (r, seen) \<Rightarrow> Inr r))"
  unfolding detect_def detect_run_fst by (simp split: sum.splits)

lemma detect_evaluated_eq:
  "detect_evaluated rs self im =
     (case normalised_image rs self im of
        Inl e \<Rightarrow> None
      | Inr nim \<Rightarrow>
          (case detect_stages self nim 0 (stages self) [] of
             Inl e \<Rightarrow> None
           | Inr (r, seen) \<Rightarrow> Some seen))"
  unfolding detect_evaluated_def detect_run_fst by (simp split: sum.splits)

lemma detect_first_reject:
  assumes "normalised_image rs self im = Inr nim"
    and "i < length (stages self)"
    and "list_all (stage_expands self) (take (Suc i) (stages self))"
    and "stage_rejects self nim (stages self ! i)"
    and "\<forall>j<i. \<not> stage_rejects self nim (stages self ! j)"
  shows "detect rs self im = Inr (- int i)"
    and "detect_evaluated rs self im =
           Some (concat (map weak_classifiers (take (Suc i) (stages self))))"
  using detect_stages_first_reject [OF assms(2-5), of 0 "[]"]
  by (simp_all add: detect_eq detect_evaluated_eq assms(1))

lemma detect_all_pass:
  assumes "normalised_image rs self im = Inr nim"
    and "list_all (stage_expands self) (stages self)"
    and "list_all (\<lambda>st. \<not> stage_rejects self nim st) (stages self)"
  shows "detect rs self im = Inr 1"
    and "detect_evaluated rs self im = Some (concat (map weak_classifiers (stages self)))"
  using detect_stages_accept [OF assms(2,3), of 0 "[]"]
  by (simp_all add: detect_eq detect_evaluated_eq assms(1))

lemma py_index_in_range:
  "0 \<le> i \<Longrightarrow> i < int (length xs) \<Longrightarrow> py_index xs i = Inr (xs ! nat i)"
  by (simp add: py_index_def Let_def)

lemma valid_feature_refs_expands:
  assumes "valid_feature_refs self"
  shows "list_all (stage_expands self) (stages self)"
  using assms
  unfolding valid_feature_refs_def stage_expands_def expands_def list_all_iff
  by (auto simp: feature_to_array_def py_index_in_range split: sum.splits)

text \<open>
  C2. Stages are evaluated in order. When stage \<open>i\<close> is the first stage whose score
  (the sum, over its classifiers, of \<open>pass_val\<close> when the feature's weighted sum
  over the normalised image is \<open>\<ge>\<close> the classifier's threshold, else \<open>fail_val\<close>)
  is below the stage's threshold, \<open>detect\<close> returns \<open>-i\<close>, and the classifiers it
  has evaluated are exactly those of stages \<open>0..i\<close>: no classifier of a later stage
  is evaluated (a later stage may even name a feature that does not exist). When no
  stage's score is below its threshold, \<open>detect\<close> returns \<open>1\<close>.
\<close>

theorem detect_sequential_rejection:
  assumes "normalised_image rs self im = Inr nim"
  shows "(\<forall>i. i < length (stages self) \<and>
              list_all (stage_expands self) (take (Suc i) (stages self)) \<and>
              stage_rejects self nim (stages self ! i) \<and>
              (\<forall>j<i. \<not> stage_rejects self nim (stages self ! j)) \<longrightarrow>
              detect rs self im = Inr (- int i) \<and>
              detect_evaluated rs self im =
                Some (concat (map weak_classifiers (take (Suc i) (stages self))))) \<and>
         (list_all (stage_expands self) (stages self) \<and>
          list_all (\<lambda>st. \<not> stage_rejects self nim st) (stages self) \<longrightarrow>
            detect rs self im = Inr 1 \<and>
            detect_evaluated rs self im = Some (concat (map weak_classifiers (stages self))))"
  using detect_first_reject [OF assms] detect_all_pass [OF assms] by blast

theorem detect_sequential_rejection_witness:
  "normalised_image no_resize three_stages [[128]] = Inr [[1/2]] \<and>
   (1::nat) < length (stages three_stages) \<and>
   list_all (stage_expands three_stages) (take (Suc 1) (stages three_stages)) \<and>
   \<not> stage_expands three_stages (stages three_stages ! 2) \<and>
   \<not> stage_rejects three_stages [[1/2]] (stages three_stages ! 0) \<and>
   stage_rejects three_stages [[1/2]] (stages three_stages ! 1) \<and>
   detect no_resize three_stages [[128]] = Inr (- 1) \<and>
   detect_evaluated no_resize three_stages [[128]] =
     Some (concat (map weak_classifiers (take (Suc 1) (stages three_stages)))) \<and>
   normalised_image no_resize one_stage [[128]] = Inr [[1/2]] \<and>
   list_all (stage_expands one_stage) (stages one_stage) \<and>
   list_all (\<lambda>st. \<not> stage_rejects one_stage [[1/2]] st) (stages one_stage) \<and>
   detect no_resize one_stage [[128]] = Inr 1"
proof -
  have n3: "normalised_image no_resize three_stages [[128]] = Inr [[1/2]]"
    by (simp add: normalised_image_def shape_of_def three_stages_def normalise_def)
  have len: "(1::nat) < length (stages three_stages)"
    by (simp add: three_stages_def)
  have fa: "feature_to_array three_stages 0 = Inr [[1]]"
    by code_simp
  have fa7: "feature_to_array three_stages 7 = Inl IndexError"
    by code_simp
  have ex: "list_all (stage_expands three_stages) (take (Suc 1) (stages three_stages))"
    using fa by (simp add: three_stages_def stage_expands_def expands_def)
  have nex: "\<not> stage_expands three_stages (stages three_stages ! 2)"
    using fa7 by (simp add: three_stages_def stage_expands_def expands_def)
  have s0: "\<not> stage_rejects three_stages [[1/2]] (stages three_stages ! 0)"
    using fa
    by (simp add: three_stages_def stage_rejects_def stage_score_def contribution_def
          weighted_sum_def grid_dot_def)
  have s1: "stage_rejects three_stages [[1/2]] (stages three_stages ! 1)"
    using fa
    by (simp add: three_stages_def stage_rejects_def stage_score_def contribution_def
          weighted_sum_def grid_dot_def)
  have first: "\<forall>j<1. \<not> stage_rejects three_stages [[1/2]] (stages three_stages ! j)"
    using s0 by simp
  have n1: "normalised_image no_resize one_stage [[128]] = Inr [[1/2]]"
    by (simp add: normalised_image_def shape_of_def one_stage_def normalise_def)
  have fa1: "feature_to_array one_stage 0 = Inr [[1]]"
    by code_simp
  have ex1: "list_all (stage_expands one_stage) (stages one_stage)"
    using fa1 by (simp add: one_stage_def stage_expands_def expands_def)
  have p1: "list_all (\<lambda>st. \<not> stage_rejects one_stage [[1/2]] st) (stages one_stage)"
    using fa1
    by (simp add: one_stage_def stage_rejects_def stage_score_def contribution_def
          weighted_sum_def grid_dot_def)
  have r3: "detect no_resize three_stages [[128]] = Inr (- int 1) \<and>
            detect_evaluated no_resize three_stages [[128]] =
              Some (concat (map weak_classifiers (take (Suc 1) (stages three_stages))))"
    using detect_sequential_rejection [OF n3] len ex s1 first by blast
  have r1: "detect no_resize one_stage [[128]] = Inr 1"
    using detect_sequential_rejection [OF n1] ex1 p1 by blast
  show ?thesis using n3 len ex nex s0 s1 r3 n1 ex1 p1 r1 by simp
qed

text \<open>
  C5, as the code has it. When stage \<open>i\<close> (counted from 0) is the first stage that
  rejects, \<open>detect\<close> returns \<open>-i\<close>. That value is never positive, so it differs
  from the accept result \<open>1\<close>; it is negative exactly when \<open>i \<ge> 1\<close>, and it is
  \<open>0\<close> when the first stage rejects.
\<close>

theorem detect_rejection_not_positive:
  assumes "normalised_image rs self im = Inr nim"
    and "i < length (stages self)"
    and "list_all (stage_expands self) (take (Suc i) (stages self))"
    and "stage_rejects self nim (stages self ! i)"
    and "\<forall>j<i. \<not> stage_rejects self nim (stages self ! j)"
  shows "\<exists>r. detect rs self im = Inr r \<and> r = - int i \<and> r \<le> 0 \<and> r \<noteq> 1 \<and>
             (r < 0 \<longleftrightarrow> 1 \<le> i) \<and> (r = 0 \<longleftrightarrow> i = 0)"
  using detect_first_reject(1) [OF assms] by auto

theorem detect_rejection_not_positive_witness:
  "normalised_image no_resize one_stage [[0]] = Inr [[0]] \<and>
   (0::nat) < length (stages one_stage) \<and>
   list_all (stage_expands one_stage) (take (Suc 0) (stages one_stage)) \<and>
   stage_rejects one_stage [[0]] (stages one_stage ! 0) \<and>
   (\<exists>r. detect no_resize one_stage [[0]] = Inr r \<and> r = 0 \<and> r \<noteq> 1)"
proof -
  have n: "normalised_image no_resize one_stage [[0]] = Inr [[0]]"
    by (simp add: normalised_image_def shape_of_def one_stage_def normalise_def)
  have len: "(0::nat) < length (stages one_stage)"
    by (simp add: one_stage_def)
  have fa: "feature_to_array one_stage 0 = Inr [[1]]"
    by code_simp
  have ex: "list_all (stage_expands one_stage) (take (Suc 0) (stages one_stage))"
    using fa by (simp add: one_stage_def stage_expands_def expands_def)
  have rej: "stage_rejects one_stage [[0]] (stages one_stage ! 0)"
    using fa
    by (simp add: one_stage_def stage_rejects_def stage_score_def contribution_def
          weighted_sum_def grid_dot_def)
  have first: "\<forall>j<0. \<not> stage_rejects one_stage [[0]] (stages one_stage ! j)"
    by simp
  from detect_rejection_not_positive [OF n len ex rej first]
  have "\<exists>r. detect no_resize one_stage [[0]] = Inr r \<and> r = 0 \<and> r \<noteq> 1"
    by auto
  then show ?thesis using n len ex rej by simp
qed

text \<open>
  C5, as it is stated, fails: the only stage of \<open>one_stage\<close> rejects the black
  image, and \<open>detect\<close> returns \<open>-0 = 0\<close>, which is not negative.
\<close>

theorem detect_rejection_negative_counterexample:
  "stage_rejects one_stage [[0]] (stages one_stage ! 0) \<and>
   detect no_resize one_stage [[0]] = Inr 0 \<and>
   \<not> (\<exists>r. detect no_resize one_stage [[0]] = Inr r \<and> r < 0)"
proof -
  have fa: "feature_to_array one_stage 0 = Inr [[1]]"
    by code_simp
  have rej: "stage_rejects one_stage [[0]] (stages one_stage ! 0)"
    using fa
    by (simp add: one_stage_def stage_rejects_def stage_score_def contribution_def
          weighted_sum_def grid_dot_def)
  have d: "detect no_resize one_stage [[0]] = Inr 0"
    by code_simp
  show ?thesis using rej d by simp
qed

text \<open>
  C10. \<open>detect\<close> does not change the caller's array: every array that the store held
  before the call is the same after it (the old store is a prefix of the new one), in
  particular the one at the address \<open>im\<close> passed in. The resize, the conversion and
  the division work on arrays allocated during the call.
\<close>

theorem detect_keeps_input:
  "take (length s) (snd (detect_run rs self im s)) = s \<and>
   (im < length s \<longrightarrow> snd (detect_run rs self im s) ! im = s ! im)"
proof -
  have "take (length s) (snd (detect_run rs self im s)) = s"
    by (auto simp: detect_run_def alloc_def Let_def split: sum.splits)
  then show ?thesis using detect_run_frame [of im s rs self im] by simp
qed

theorem detect_keeps_input_witness:
  "(0::nat) < length [[[1, 2], [3, 4::real]]] \<and>
   snd (detect_run flat_resize one_stage 0 [[[1, 2], [3, 4]]]) =
     [[[1, 2], [3, 4]], [[128]], [[1/2]]] \<and>
   snd (detect_run flat_resize one_stage 0 [[[1, 2], [3, 4]]]) ! 0 = [[1, 2], [3, 4]] \<and>
   snd (detect_run no_resize one_stage 0 [[[128]]]) = [[[128]], [[1/2]]] \<and>
   snd (detect_run no_resize one_stage 0 [[[128]]]) ! 0 = [[128]]"
proof -
  have a: "snd (detect_run flat_resize one_stage 0 [[[1, 2], [3, 4]]]) =
             [[[1, 2], [3, 4]], [[128]], [[1/2]]]"
    by (simp add: detect_run_def alloc_def Let_def shape_of_def one_stage_def cv2_resize_def
          flat_resize_def normalise_def)
  have b: "snd (detect_run no_resize one_stage 0 [[[128]]]) = [[[128]], [[1/2]]]"
    by (simp add: detect_run_def alloc_def Let_def shape_of_def one_stage_def normalise_def)
  have c: "snd (detect_run flat_resize one_stage 0 [[[1, 2], [3, 4]]]) ! 0 = [[1, 2], [3, 4]]"
    using detect_keeps_input [of "[[[1, 2], [3, 4]]]" flat_resize one_stage 0] by simp
  have d: "snd (detect_run no_resize one_stage 0 [[[128]]]) ! 0 = [[128]]"
    using detect_keeps_input [of "[[[128]]]" no_resize one_stage 0] by simp
  show ?thesis using a b c d by simp
qed

section \<open>The constraints of \<open>CascadeModel\<close>\<close>

lemma eval_expr_Nil: "eval_expr a [] = 0"
  by (simp add: eval_expr_def)

lemma eval_expr_Cons: "eval_expr a ((k, v) # e) = k * a v + eval_expr a e"
  by (simp add: eval_expr_def)

lemma eval_expr_append: "eval_expr a (e1 @ e2) = eval_expr a e1 + eval_expr a e2"
  by (simp add: eval_expr_def)

lemma eval_expr_concat: "eval_expr a (concat es) = (\<Sum>e\<leftarrow>es. eval_expr a e)"
  by (induction es) (simp_all add: eval_expr_Nil eval_expr_append)

lemma eval_pixel_terms:
  "eval_expr a (pixel_terms n m g) = (\<Sum>y\<leftarrow>[0..<n]. \<Sum>x\<leftarrow>[0..<m]. a (Pixel x y) * (g ! y ! x))"
proof -
  have cell: "eval_expr a (if g ! y ! x \<noteq> 0 then [(g ! y ! x, Pixel x y)] else []) =
                a (Pixel x y) * (g ! y ! x)" for x y
    by (simp add: eval_expr_Nil eval_expr_Cons)
  show ?thesis
    unfolding pixel_terms_def eval_expr_concat
    by (simp add: o_def eval_expr_concat cell)
qed

lemma eval_stage_lhs:
  "eval_expr b (map (\<lambda>c. (pass_val c - fail_val c, Feature (feature_idx c))) cls) =
     (\<Sum>c\<leftarrow>cls. (pass_val c - fail_val c) * b (Feature (feature_idx c)))"
  by (induction cls) (simp_all add: eval_expr_Nil eval_expr_Cons)


lemma collect_Inr:
  "collect f xs = Inr ys \<Longrightarrow>
   ys = map (\<lambda>x. projr (f x)) xs \<and> (\<forall>x\<in>set xs. f x = Inr (projr (f x)))"
proof (induction xs arbitrary: ys)
  case Nil
  then show ?case by simp
next
  case (Cons x xs)
  then show ?case by (auto split: sum.splits)
qed

lemma feature_to_array_shape:
  "feature_to_array self fidx = Inr fa \<Longrightarrow> has_shape (nat (height self)) (nat (width self)) fa"
  using has_shape_foldl [OF has_shape_zeros]
  by (auto simp: feature_to_array_def split: if_splits sum.splits)

lemma scaled_feature_array_nth:
  "has_shape n m fa \<Longrightarrow> y < n \<Longrightarrow> x < m \<Longrightarrow>
   scaled_feature_array casc fa ! y ! x = fa ! y ! x / real_of_int (width casc * height casc)"
  by (simp add: scaled_feature_array_def has_shape_def list_all_length)

lemma sum_list_upt_cong:
  "(\<And>i. i < n \<Longrightarrow> f i = g i) \<Longrightarrow> (\<Sum>i\<leftarrow>[0..<n]. f i) = (\<Sum>i\<leftarrow>[0..<n]. (g i :: real))"
  by (rule arg_cong [where f = sum_list]) simp

lemma eval_scaled_pixel_terms:
  assumes "has_shape (nat (height casc)) (nat (width casc)) fa"
  shows "eval_expr a (pixel_terms (nat (height casc)) (nat (width casc))
                        (scaled_feature_array casc fa)) = scaled_pixel_sum casc fa a"
  unfolding eval_pixel_terms scaled_pixel_sum_def
  by (intro sum_list_upt_cong) (simp add: scaled_feature_array_nth [OF assms])

lemma classifier_constraint_holds:
  assumes "classifier_constraint casc fvars epsilon c = Inr ct"
  shows "\<exists>fa. feature_to_array casc (feature_idx c) = Inr fa \<and>
              feature_idx c \<in> set fvars \<and>
              (\<forall>a. holds a ct \<longleftrightarrow> classifier_formula casc epsilon c fa a)"
proof -
  from assms obtain fa where fa: "feature_to_array casc (feature_idx c) = Inr fa"
    by (auto simp: classifier_constraint_def split: sum.splits)
  have sh: "has_shape (nat (height casc)) (nat (width casc)) fa"
    using fa by (rule feature_to_array_shape)
  have key: "feature_idx c \<in> set fvars"
    using assms fa by (auto simp: classifier_constraint_def Let_def split: if_splits)
  have "holds a ct \<longleftrightarrow> classifier_formula casc epsilon c fa a" for a
    using assms fa key
    by (auto simp: classifier_constraint_def Let_def holds_def eval_expr_append eval_expr_Cons
          eval_expr_Nil eval_scaled_pixel_terms [OF sh] classifier_formula_def algebra_simps
          split: if_splits)
  then show ?thesis using fa key by blast
qed

lemma stage_constraints_Inr:
  assumes "stage_constraints casc fvars epsilon stage = Inr cts"
  shows "cts = map (\<lambda>c. projr (classifier_constraint casc fvars epsilon c)) (weak_classifiers stage) @
               [stage_constraint epsilon stage] \<and>
         (\<forall>c\<in>set (weak_classifiers stage).
            classifier_constraint casc fvars epsilon c =
              Inr (projr (classifier_constraint casc fvars epsilon c)))"
  using assms collect_Inr [of "classifier_constraint casc fvars epsilon" "weak_classifiers stage"]
  by (auto simp: stage_constraints_def split: sum.splits)

lemma CascadeModel_init_Inr:
  assumes "CascadeModel_init casc epsilon = Inr m"
  shows "cascade m = casc"
    and "feature_vars m = map int [0..<length (features casc)]"
    and "pixel_vars m = concat (map (\<lambda>y. map (\<lambda>x. (x, y)) [0..<nat (width casc)])
                                    [0..<nat (height casc)])"
    and "constraints m =
           concat (map (\<lambda>stage.
                      map (\<lambda>c. projr (classifier_constraint casc (feature_vars m) epsilon c))
                          (weak_classifiers stage) @ [stage_constraint epsilon stage])
                    (stages casc))"
    and "\<forall>stage\<in>set (stages casc). \<forall>c\<in>set (weak_classifiers stage).
           classifier_constraint casc (feature_vars m) epsilon c =
             Inr (projr (classifier_constraint casc (feature_vars m) epsilon c))"
proof -
  let ?fv = "map int [0..<length (features casc)]"
  from assms obtain ctss where
    c: "collect (stage_constraints casc ?fv epsilon) (stages casc) = Inr ctss" and
    m: "m = \<lparr>cascade = casc,
             pixel_vars = concat (map (\<lambda>y. map (\<lambda>x. (x, y)) [0..<nat (width casc)])
                                      [0..<nat (height casc)]),
             feature_vars = ?fv, constraints = concat ctss\<rparr>"
    by (auto simp: CascadeModel_init_def Let_def split: sum.splits)
  show "cascade m = casc" and fv: "feature_vars m = ?fv"
    and "pixel_vars m = concat (map (\<lambda>y. map (\<lambda>x. (x, y)) [0..<nat (width casc)])
                                    [0..<nat (height casc)])"
    by (simp_all add: m)
  from collect_Inr [OF c] have
    ctss: "ctss = map (\<lambda>st. projr (stage_constraints casc ?fv epsilon st)) (stages casc)" and
    each: "\<forall>st\<in>set (stages casc). stage_constraints casc ?fv epsilon st =
             Inr (projr (stage_constraints casc ?fv epsilon st))"
    by simp_all
  have st: "projr (stage_constraints casc ?fv epsilon st) =
              map (\<lambda>c. projr (classifier_constraint casc ?fv epsilon c)) (weak_classifiers st) @
              [stage_constraint epsilon st] \<and>
            (\<forall>c\<in>set (weak_classifiers st).
               classifier_constraint casc ?fv epsilon c =
                 Inr (projr (classifier_constraint casc ?fv epsilon c)))"
    if "st \<in> set (stages casc)" for st
    using stage_constraints_Inr each that by blast
  show "constraints m =
           concat (map (\<lambda>stage.
                      map (\<lambda>c. projr (classifier_constraint casc (feature_vars m) epsilon c))
                          (weak_classifiers stage) @ [stage_constraint epsilon stage])
                    (stages casc))"
    unfolding fv using st by (simp add: m ctss cong: map_cong)
  show "\<forall>stage\<in>set (stages casc). \<forall>c\<in>set (weak_classifiers stage).
           classifier_constraint casc (feature_vars m) epsilon c =
             Inr (projr (classifier_constraint casc (feature_vars m) epsilon c))"
    unfolding fv using st by blast
qed

text \<open>
  C3. \<open>CascadeModel\<close> adds, for every stage in order, exactly one constraint per weak
  classifier of the stage, in order, and then the stage constraint. With the
  classifier's feature grid scaled by \<open>1 / (width * height)\<close>, the classifier's
  constraint says: when \<open>pass_val \<ge> fail_val\<close>, the sum over the pixels of
  \<open>pixel_var(x, y) * featuregrid(y, x)\<close> minus \<open>(threshold + epsilon)\<close> times the
  classifier's feature variable is \<open>\<ge> 0\<close>; otherwise that sum plus
  \<open>(threshold - epsilon)\<close> times the feature variable is \<open>\<le> threshold - epsilon\<close>.
\<close>

theorem classifier_constraints_emitted:
  assumes "CascadeModel_init casc epsilon = Inr m"
  shows "\<exists>row. constraints m =
                  concat (map (\<lambda>stage. map row (weak_classifiers stage) @
                                         [stage_constraint epsilon stage])
                              (stages casc)) \<and>
               (\<forall>stage\<in>set (stages casc). \<forall>c\<in>set (weak_classifiers stage).
                  \<exists>fa. feature_to_array casc (feature_idx c) = Inr fa \<and>
                       (\<forall>a. holds a (row c) \<longleftrightarrow> classifier_formula casc epsilon c fa a))"
proof -
  let ?row = "\<lambda>c. projr (classifier_constraint casc (feature_vars m) epsilon c)"
  have "\<exists>fa. feature_to_array casc (feature_idx c) = Inr fa \<and>
             (\<forall>a. holds a (?row c) \<longleftrightarrow> classifier_formula casc epsilon c fa a)"
    if "stage \<in> set (stages casc)" "c \<in> set (weak_classifiers stage)" for stage c
  proof -
    have "classifier_constraint casc (feature_vars m) epsilon c = Inr (?row c)"
      using CascadeModel_init_Inr(5) [OF assms] that by blast
    from classifier_constraint_holds [OF this] show ?thesis by blast
  qed
  then show ?thesis using CascadeModel_init_Inr(4) [OF assms] by blast
qed

theorem classifier_constraints_emitted_witness:
  "CascadeModel_init tie_cascade 0 = Inr tie_model \<and>
   length (constraints tie_model) = 3 \<and>
   constraints tie_model ! 2 = stage_constraint 0 tie_stage \<and>
   feature_to_array tie_cascade (feature_idx tie_absent) = Inr [[1]] \<and>
   (holds tie_solution (constraints tie_model ! 1) \<longleftrightarrow>
      classifier_formula tie_cascade 0 tie_absent [[1]] tie_solution) \<and>
   classifier_formula tie_cascade 0 tie_absent [[1]] tie_solution"
proof -
  have m: "CascadeModel_init tie_cascade 0 = Inr tie_model"
    by code_simp
  have fa1: "feature_to_array tie_cascade (feature_idx tie_absent) = Inr [[1]]"
    by code_simp
  from classifier_constraints_emitted [OF m] obtain row where
    cts: "constraints tie_model =
            concat (map (\<lambda>stage. map row (weak_classifiers stage) @ [stage_constraint 0 stage])
                        (stages tie_cascade))" and
    sem: "\<forall>stage\<in>set (stages tie_cascade). \<forall>c\<in>set (weak_classifiers stage).
            \<exists>fa. feature_to_array tie_cascade (feature_idx c) = Inr fa \<and>
                 (\<forall>a. holds a (row c) \<longleftrightarrow> classifier_formula tie_cascade 0 c fa a)"
    by blast
  have list: "constraints tie_model = [row tie_present, row tie_absent, stage_constraint 0 tie_stage]"
    by (simp add: cts tie_cascade_def tie_stage_def)
  have "tie_stage \<in> set (stages tie_cascade)"
    and "tie_absent \<in> set (weak_classifiers tie_stage)"
    by (simp_all add: tie_cascade_def tie_stage_def)
  then obtain fa where
    "feature_to_array tie_cascade (feature_idx tie_absent) = Inr fa" and
    h: "\<forall>a. holds a (row tie_absent) \<longleftrightarrow> classifier_formula tie_cascade 0 tie_absent fa a"
    using sem by blast
  then have fa: "fa = [[1]]" using fa1 by simp
  have iff: "holds tie_solution (constraints tie_model ! 1) \<longleftrightarrow>
               classifier_formula tie_cascade 0 tie_absent [[1]] tie_solution"
    using h fa by (simp add: list)
  have "holds tie_solution (constraints tie_model ! 1)"
    by (simp add: tie_model_def holds_def eval_expr_def tie_solution_def)
  then show ?thesis using m fa1 iff by (simp add: list)
qed

section \<open>Soundness\<close>

lemma sum_list_zip:
  assumes "length xs = n" "length ys = n"
  shows "(\<Sum>(p, q)\<leftarrow>zip xs ys. f p q) = (\<Sum>i\<leftarrow>[0..<n]. (f (xs ! i) (ys ! i) :: real))"
proof -
  have "zip xs ys = map (\<lambda>i. (xs ! i, ys ! i)) [0..<n]"
    using assms by (intro nth_equalityI) simp_all
  then show ?thesis by (simp add: o_def)
qed

lemma grid_dot_sum:
  assumes "has_shape n m A" "has_shape n m B"
  shows "grid_dot A B = (\<Sum>y\<leftarrow>[0..<n]. \<Sum>x\<leftarrow>[0..<m]. A ! y ! x * (B ! y ! x))"
proof -
  have len: "length A = n" "length B = n"
    using assms by (simp_all add: has_shape_def)
  have "grid_dot A B = (\<Sum>y\<leftarrow>[0..<n]. \<Sum>(p, q)\<leftarrow>zip (A ! y) (B ! y). p * q)"
    unfolding grid_dot_def using len by (rule sum_list_zip)
  also have "\<dots> = (\<Sum>y\<leftarrow>[0..<n]. \<Sum>x\<leftarrow>[0..<m]. A ! y ! x * (B ! y ! x))"
  proof (rule sum_list_upt_cong)
    fix y assume y: "y < n"
    show "(\<Sum>(p, q)\<leftarrow>zip (A ! y) (B ! y). p * q) = (\<Sum>x\<leftarrow>[0..<m]. A ! y ! x * (B ! y ! x))"
      using has_shape_row [OF assms(1) y] has_shape_row [OF assms(2) y] by (rule sum_list_zip)
  qed
  finally show ?thesis .
qed

lemma has_shape_solution_grid:
  "has_shape (nat (height casc)) (nat (width casc)) (solution_grid casc a)"
  by (simp add: has_shape_def solution_grid_def list_all_iff)

lemma solution_image_normalised:
  assumes "0 < height casc" "0 < width casc"
  shows "normalised_image rs casc (times_256 (solution_grid casc a)) =
           Inr (normalise casc (times_256 (solution_grid casc a)))"
proof -
  have "[0..<nat (height casc)] \<noteq> []" using assms(1) by simp
  then have "shape_of (times_256 (solution_grid casc a)) = (height casc, width casc)"
    using assms by (simp add: shape_of_def times_256_def solution_grid_def hd_map)
  then show ?thesis by (simp add: normalised_image_def)
qed

lemma normalised_solution_nth:
  assumes "0 < height casc" "0 < width casc" "y < nat (height casc)" "x < nat (width casc)"
  shows "normalise casc (times_256 (solution_grid casc a)) ! y ! x =
           a (Pixel x y) / real_of_int (width casc * height casc)"
  using assms by (simp add: normalise_def times_256_def solution_grid_def mult.commute)

lemma has_shape_normalised_solution:
  "has_shape (nat (height casc)) (nat (width casc))
     (normalise casc (times_256 (solution_grid casc a)))"
  by (simp add: has_shape_def normalise_def times_256_def solution_grid_def list_all_iff)

lemma weighted_sum_solution:
  assumes "0 < height casc" "0 < width casc"
    and fa: "feature_to_array casc (feature_idx c) = Inr fa"
  shows "weighted_sum casc (normalise casc (times_256 (solution_grid casc a))) c =
           scaled_pixel_sum casc fa a"
proof -
  let ?nim = "normalise casc (times_256 (solution_grid casc a))"
  have "weighted_sum casc ?nim c = grid_dot fa ?nim"
    by (simp add: weighted_sum_def fa)
  also have "\<dots> = (\<Sum>y\<leftarrow>[0..<nat (height casc)]. \<Sum>x\<leftarrow>[0..<nat (width casc)].
                      fa ! y ! x * (?nim ! y ! x))"
    using feature_to_array_shape [OF fa] has_shape_normalised_solution by (rule grid_dot_sum)
  also have "\<dots> = scaled_pixel_sum casc fa a"
    unfolding scaled_pixel_sum_def
    by (intro sum_list_upt_cong) (simp add: normalised_solution_nth [OF assms(1,2)])
  finally show ?thesis .
qed

lemma contribution_ge:
  assumes "weighted_sum casc nim c = scaled_pixel_sum casc fa a"
    and "classifier_formula casc epsilon c fa a"
    and "a (Feature (feature_idx c)) = 0 \<or> a (Feature (feature_idx c)) = 1"
    and "0 \<le> epsilon"
    and "0 < epsilon \<or> fail_val c \<le> pass_val c"
  shows "(pass_val c - fail_val c) * a (Feature (feature_idx c)) + fail_val c
           \<le> contribution casc nim c"
  using assms unfolding contribution_def classifier_formula_def
  by (auto split: if_splits)

lemma sum_list_le:
  "(\<And>x. x \<in> set xs \<Longrightarrow> f x \<le> (g x :: real)) \<Longrightarrow> (\<Sum>x\<leftarrow>xs. f x) \<le> (\<Sum>x\<leftarrow>xs. g x)"
  by (induction xs) (simp_all add: add_mono)

text \<open>
  Soundness of the encoding in exact arithmetic (the reals of this model, without the
  rounding of float64). Let the cascade have positive dimensions and let
  \<open>epsilon \<ge> 0\<close>. If \<open>epsilon > 0\<close>, or if every classifier has
  \<open>pass_val \<ge> fail_val\<close>, then every assignment that satisfies the model (pixel
  variables in \<open>[0, 1]\<close>, feature variables 0 or 1, all constraints) gives a grid,
  with intensity \<open>256\<close> times the pixel variable, that \<open>detect\<close> accepts.
\<close>

theorem constraint_encoding_sound:
  assumes dims: "0 < height casc" "0 < width casc"
    and init: "CascadeModel_init casc epsilon = Inr m"
    and eps: "0 \<le> epsilon" "0 < epsilon \<or> rewards_presence casc"
    and sat: "satisfies a m"
  shows "detect rs casc (times_256 (solution_grid casc a)) = Inr 1"
proof -
  let ?im = "times_256 (solution_grid casc a)"
  let ?nim = "normalise casc ?im"
  let ?row = "\<lambda>c. projr (classifier_constraint casc (feature_vars m) epsilon c)"
  have nim: "normalised_image rs casc ?im = Inr ?nim"
    using dims by (rule solution_image_normalised)
  have cts: "constraints m =
               concat (map (\<lambda>stage. map ?row (weak_classifiers stage) @
                                      [stage_constraint epsilon stage]) (stages casc))"
    using init by (rule CascadeModel_init_Inr(4))
  have all_hold: "\<And>ct. ct \<in> set (constraints m) \<Longrightarrow> holds a ct"
    and binary: "\<And>idx. idx \<in> set (feature_vars m) \<Longrightarrow> a (Feature idx) = 0 \<or> a (Feature idx) = 1"
    using sat by (auto simp: satisfies_def list_all_iff)
  have per_classifier:
    "expands casc c \<and>
     (pass_val c - fail_val c) * a (Feature (feature_idx c)) + fail_val c
       \<le> contribution casc ?nim c"
    if st: "stage \<in> set (stages casc)" and c: "c \<in> set (weak_classifiers stage)" for stage c
  proof -
    have r: "classifier_constraint casc (feature_vars m) epsilon c = Inr (?row c)"
      using CascadeModel_init_Inr(5) [OF init] st c by blast
    from classifier_constraint_holds [OF r] obtain fa where
      fa: "feature_to_array casc (feature_idx c) = Inr fa" and
      key: "feature_idx c \<in> set (feature_vars m)" and
      sem: "\<And>a. holds a (?row c) \<longleftrightarrow> classifier_formula casc epsilon c fa a"
      by blast
    have "?row c \<in> set (constraints m)"
      unfolding cts using st c by auto
    then have form: "classifier_formula casc epsilon c fa a"
      using all_hold sem by blast
    have ws: "weighted_sum casc ?nim c = scaled_pixel_sum casc fa a"
      using dims fa by (rule weighted_sum_solution)
    have dir: "0 < epsilon \<or> fail_val c \<le> pass_val c"
      using eps(2) st c by (auto simp: rewards_presence_def list_all_iff)
    have "expands casc c" by (simp add: expands_def fa)
    then show ?thesis
      using contribution_ge [OF ws form binary [OF key] eps(1) dir] by simp
  qed
  have expand: "list_all (stage_expands casc) (stages casc)"
    using per_classifier by (auto simp: list_all_iff stage_expands_def)
  have pass: "\<not> stage_rejects casc ?nim stage" if st: "stage \<in> set (stages casc)" for stage
  proof -
    have "stage_constraint epsilon stage \<in> set (constraints m)"
      unfolding cts using st by auto
    then have "holds a (stage_constraint epsilon stage)" by (rule all_hold)
    then have "stage_threshold stage + epsilon - (\<Sum>c\<leftarrow>weak_classifiers stage. fail_val c)
                 \<le> (\<Sum>c\<leftarrow>weak_classifiers stage.
                       (pass_val c - fail_val c) * a (Feature (feature_idx c)))"
      by (simp add: holds_def stage_constraint_def Let_def eval_stage_lhs)
    then have "stage_threshold stage + epsilon
                 \<le> (\<Sum>c\<leftarrow>weak_classifiers stage.
                       (pass_val c - fail_val c) * a (Feature (feature_idx c)) + fail_val c)"
      by (simp add: sum_list_addf)
    also have "\<dots> \<le> (\<Sum>c\<leftarrow>weak_classifiers stage. contribution casc ?nim c)"
      using per_classifier [OF st] by (intro sum_list_le) blast
    finally show ?thesis
      using eps(1) by (simp add: stage_rejects_def stage_score_def)
  qed
  then have "list_all (\<lambda>st. \<not> stage_rejects casc ?nim st) (stages casc)"
    by (simp add: list_all_iff)
  with nim expand show ?thesis by (rule detect_all_pass(1))
qed

theorem constraint_encoding_sound_witness:
  "0 < height one_stage \<and> 0 < width one_stage \<and>
   CascadeModel_init one_stage 0 = Inr one_model \<and>
   rewards_presence one_stage \<and>
   satisfies tie_solution one_model \<and>
   times_256 (solution_grid one_stage tie_solution) = [[128]] \<and>
   detect no_resize one_stage [[128]] = Inr 1"
proof -
  have d: "0 < height one_stage" "0 < width one_stage"
    by (simp_all add: one_stage_def)
  have m: "CascadeModel_init one_stage 0 = Inr one_model"
    by code_simp
  have r: "rewards_presence one_stage"
    by (simp add: rewards_presence_def one_stage_def)
  have s: "satisfies tie_solution one_model"
    by code_simp
  have g: "times_256 (solution_grid one_stage tie_solution) = [[128]]"
    by (simp add: times_256_def solution_grid_def one_stage_def tie_solution_def)
  have e: "(0::real) \<le> 0" by simp
  from constraint_encoding_sound [OF d m e _ s, of no_resize] r
  have "detect no_resize one_stage [[128]] = Inr 1"
    by (simp add: g)
  then show ?thesis using d m r s g by simp
qed

section \<open>The default \<open>epsilon = 0\<close> and ties\<close>

text \<open>
  C1, at the cascade \<open>tie_cascade\<close>. The cascade has one stage and two weak
  classifiers; \<open>load\<close> reads it from \<open>tie_document\<close>. The model built with the default
  \<open>epsilon = 0\<close> is \<open>tie_model\<close>, and \<open>tie_solution\<close> satisfies all of its
  constraints. Its grid is \<open>[[128]]\<close>, and \<open>detect\<close> returns \<open>0\<close> on it, not
  \<open>1\<close>: the weighted sum of the second classifier equals its threshold, so the
  detector takes \<open>pass_val = -1\<close> where the constraint allowed the feature variable 0.
  The script's final \<open>assert cascade.detect(im) == 1\<close> fails.
\<close>

theorem tie_solution_rejected:
  "load table_builtins tie_document = Inr tie_cascade \<and>
   CascadeModel_init tie_cascade 0 = Inr tie_model \<and>
   satisfies tie_solution tie_model \<and>
   times_256 (solution_grid tie_cascade tie_solution) = [[128]] \<and>
   detect no_resize tie_cascade (times_256 (solution_grid tie_cascade tie_solution)) = Inr 0 \<and>
   script table_builtins tie_solver no_resize tie_document = Inl AssertionError"
proof -
  have "load table_builtins tie_document = Inr tie_cascade" by code_simp
  moreover have "CascadeModel_init tie_cascade 0 = Inr tie_model" by code_simp
  moreover have "satisfies tie_solution tie_model" by code_simp
  moreover have "times_256 (solution_grid tie_cascade tie_solution) = [[128]]"
    by (simp add: times_256_def solution_grid_def tie_cascade_def tie_solution_def)
  moreover have "detect no_resize tie_cascade [[128]] = Inr 0" by code_simp
  moreover have "script table_builtins tie_solver no_resize tie_document = Inl AssertionError"
    by code_simp
  ultimately show ?thesis by simp
qed

lemma tie_stages_128:
  "detect_stages tie_cascade [[1/2]] 0 (stages tie_cascade) [] =
     Inr (0, [tie_present, tie_absent])"
  by code_simp

text \<open>
  Every assignment that satisfies \<open>tie_model\<close> puts the pixel at \<open>1/2\<close> and is
  rejected by \<open>detect\<close>: no answer of a solver passes the script's assertion.
\<close>

theorem tie_model_only_rejected:
  assumes "satisfies a tie_model"
  shows "a (Pixel 0 0) = 1/2 \<and>
         detect rs tie_cascade (times_256 (solution_grid tie_cascade a)) = Inr 0"
proof -
  have b0: "a (Feature 0) = 0 \<or> a (Feature 0) = 1"
    and b1: "a (Feature 1) = 0 \<or> a (Feature 1) = 1"
    and c0: "0 \<le> a (Pixel 0 0) - 1/2 * a (Feature 0)"
    and c1: "a (Pixel 0 0) + 1/2 * a (Feature 1) \<le> 1/2"
    and c2: "2 \<le> 2 * a (Feature 0) - 2 * a (Feature 1)"
    using assms by (auto simp: satisfies_def tie_model_def holds_def eval_expr_def)
  have f: "a (Feature 0) = 1" "a (Feature 1) = 0"
    using b0 b1 c2 by auto
  have p: "a (Pixel 0 0) = 1/2"
    using c0 c1 f by simp
  have g: "times_256 (solution_grid tie_cascade a) = [[128]]"
    by (simp add: times_256_def solution_grid_def tie_cascade_def p)
  have n: "normalised_image rs tie_cascade [[128]] = Inr [[1/2]]"
    by (simp add: normalised_image_def shape_of_def tie_cascade_def normalise_def)
  have "detect rs tie_cascade [[128]] = Inr 0"
    by (simp add: detect_eq n tie_stages_128)
  then show ?thesis using p g by simp
qed

theorem tie_model_only_rejected_witness:
  "satisfies tie_solution tie_model \<and> tie_solution (Pixel 0 0) = 1/2 \<and>
   detect no_resize tie_cascade (times_256 (solution_grid tie_cascade tie_solution)) = Inr 0"
proof -
  have s: "satisfies tie_solution tie_model" by code_simp
  from tie_model_only_rejected [OF s, of no_resize] s show ?thesis by simp
qed

section \<open>\<open>find_min_face\<close>\<close>

lemma and_then_Inr: "and_then m f = Inr v \<longleftrightarrow> (\<exists>u. m = Inr u \<and> f u = Inr v)"
  by (cases m) (simp_all add: and_then_def)

lemma solution_grid_nth:
  "y < nat (height casc) \<Longrightarrow> x < nat (width casc) \<Longrightarrow>
   solution_grid casc a ! y ! x = a (Pixel x y)"
  by (simp add: solution_grid_def)

lemma times_256_solution_nth:
  "y < nat (height casc) \<Longrightarrow> x < nat (width casc) \<Longrightarrow>
   times_256 (solution_grid casc a) ! y ! x = a (Pixel x y) * 256"
  by (simp add: solution_grid_def times_256_def)

lemma satisfies_pixel_bounds:
  assumes "CascadeModel_init casc epsilon = Inr m" "satisfies a m"
    and "y < nat (height casc)" "x < nat (width casc)"
  shows "0 \<le> a (Pixel x y) \<and> a (Pixel x y) \<le> 1"
proof -
  have "(x, y) \<in> set (pixel_vars m)"
    unfolding CascadeModel_init_Inr(3) [OF assms(1)] using assms(3,4) by force
  then show ?thesis
    using assms(2) by (auto simp: satisfies_def list_all_iff)
qed

text \<open>
  C8, as the code has it. When the cascade loads, the model is built and the solver
  returns an assignment, \<open>find_min_face\<close> returns the grid of \<open>height\<close> rows and
  \<open>width\<close> columns whose cell \<open>(y, x)\<close> is the value assigned to pixel variable
  \<open>(x, y)\<close>, unscaled: it lies in \<open>[0, 1]\<close> when the assignment satisfies the
  model. The script multiplies the returned grid by 256 afterwards, which gives
  intensities in \<open>[0, 256]\<close>.
\<close>

theorem find_min_face_returns_raw_values:
  assumes "load ps cascade_file = Inr casc"
    and "CascadeModel_init casc 0 = Inr m"
    and "solve m (map (\<lambda>(x, y). (1, Pixel x y)) (pixel_vars m)) = Some a"
  shows "find_min_face ps solve cascade_file = Inr (solution_grid casc a) \<and>
         has_shape (nat (height casc)) (nat (width casc)) (solution_grid casc a) \<and>
         (\<forall>y x. y < nat (height casc) \<and> x < nat (width casc) \<longrightarrow>
            solution_grid casc a ! y ! x = a (Pixel x y) \<and>
            (satisfies a m \<longrightarrow>
               0 \<le> solution_grid casc a ! y ! x \<and> solution_grid casc a ! y ! x \<le> 1 \<and>
               0 \<le> times_256 (solution_grid casc a) ! y ! x \<and>
               times_256 (solution_grid casc a) ! y ! x \<le> 256))"
proof -
  have ret: "find_min_face ps solve cascade_file = Inr (solution_grid casc a)"
    by (simp add: find_min_face_def and_then_def assms)
  have cell: "solution_grid casc a ! y ! x = a (Pixel x y) \<and>
              (satisfies a m \<longrightarrow>
                 0 \<le> solution_grid casc a ! y ! x \<and> solution_grid casc a ! y ! x \<le> 1 \<and>
                 0 \<le> times_256 (solution_grid casc a) ! y ! x \<and>
                 times_256 (solution_grid casc a) ! y ! x \<le> 256)"
    if yx: "y < nat (height casc)" "x < nat (width casc)" for y x
    using satisfies_pixel_bounds [OF assms(2) _ yx]
    by (auto simp: solution_grid_nth [OF yx] times_256_solution_nth [OF yx])
  show ?thesis using ret has_shape_solution_grid cell by blast
qed

theorem find_min_face_returns_raw_values_witness:
  "load table_builtins tie_document = Inr tie_cascade \<and>
   CascadeModel_init tie_cascade 0 = Inr tie_model \<and>
   tie_solver tie_model (map (\<lambda>(x, y). (1, Pixel x y)) (pixel_vars tie_model)) = Some tie_solution \<and>
   satisfies tie_solution tie_model \<and>
   find_min_face table_builtins tie_solver tie_document = Inr (solution_grid tie_cascade tie_solution) \<and>
   solution_grid tie_cascade tie_solution = [[1/2]] \<and>
   solution_grid tie_cascade tie_solution ! 0 ! 0 = tie_solution (Pixel 0 0)"
proof -
  have l: "load table_builtins tie_document = Inr tie_cascade" by code_simp
  have m: "CascadeModel_init tie_cascade 0 = Inr tie_model" by code_simp
  have s: "tie_solver tie_model (map (\<lambda>(x, y). (1, Pixel x y)) (pixel_vars tie_model)) =
             Some tie_solution"
    by (simp add: tie_solver_def)
  have sat: "satisfies tie_solution tie_model" by code_simp
  have g: "solution_grid tie_cascade tie_solution = [[1/2]]"
    by (simp add: solution_grid_def tie_cascade_def tie_solution_def)
  have d: "(0::nat) < nat (height tie_cascade)" "(0::nat) < nat (width tie_cascade)"
    by (simp_all add: tie_cascade_def)
  from find_min_face_returns_raw_values
         [of table_builtins tie_document tie_cascade tie_model tie_solver tie_solution, OF l m s]
  have "find_min_face table_builtins tie_solver tie_document =
          Inr (solution_grid tie_cascade tie_solution)"
    and "solution_grid tie_cascade tie_solution ! 0 ! 0 = tie_solution (Pixel 0 0)"
    using d by blast+
  then show ?thesis using l m s sat g by simp
qed

text \<open>
  C8, as it is stated, fails: for \<open>tie_document\<close> and a solver that answers
  \<open>tie_solution\<close> (pixel variable \<open>1/2\<close>), \<open>find_min_face\<close> returns \<open>[[1/2]]\<close>,
  the value of the variable itself, neither \<open>255\<close> nor \<open>256\<close> times it.
\<close>

theorem find_min_face_scaled_counterexample:
  "satisfies tie_solution tie_model \<and>
   tie_solution (Pixel 0 0) = 1/2 \<and>
   find_min_face table_builtins tie_solver tie_document = Inr [[1/2]] \<and>
   find_min_face table_builtins tie_solver tie_document \<noteq>
     Inr [[255 * tie_solution (Pixel 0 0)]] \<and>
   find_min_face table_builtins tie_solver tie_document \<noteq>
     Inr [[256 * tie_solution (Pixel 0 0)]]"
proof -
  have sat: "satisfies tie_solution tie_model" by code_simp
  have v: "tie_solution (Pixel 0 0) = 1/2" by (simp add: tie_solution_def)
  have f: "find_min_face table_builtins tie_solver tie_document = Inr [[1/2]]"
    by code_simp
  show ?thesis using sat by (simp add: v f)
qed

section \<open>\<open>Cascade.load\<close>\<close>

lemma collect_member:
  "collect f xs = Inr ys \<Longrightarrow> x \<in> set xs \<Longrightarrow> \<exists>y. f x = Inr y"
  using collect_Inr [of f xs ys] by auto

lemma py_index_0_1:
  assumes "py_index sp 0 = Inr a" "py_index sp 1 = Inr b"
  shows "take 2 sp = [a, b]"
proof (cases sp)
  case Nil
  then show ?thesis using assms(1) by (simp add: py_index_def)
next
  case (Cons u rest)
  show ?thesis
  proof (cases rest)
    case Nil
    then show ?thesis using assms(2) Cons by (simp add: py_index_def)
  next
    case (Cons v rest')
    then show ?thesis
      using assms \<open>sp = u # rest\<close> by (simp add: py_index_def Let_def)
  qed
qed

lemma load_classifier_sentinel:
  assumes "load_classifier ps classifier_node = Inr c"
  shows "\<exists>sp. split_text_content (find_first [''internalNodes''] classifier_node) = Inr sp \<and>
              take 2 sp = [''0'', ''-1'']"
proof -
  from assms obtain sp where
    sp: "split_text_content (find_first [''internalNodes''] classifier_node) = Inr sp" and
    rest: "and_then (py_index sp 0) (\<lambda>sp0. if sp0 \<noteq> ''0'' then Inl AssertionError else
             and_then (py_index sp 1) (\<lambda>sp1. if sp1 \<noteq> ''-1'' then Inl AssertionError else
             and_then (and_then (py_index sp 2) (to_int ps)) (\<lambda>fidx.
             and_then (and_then (py_index sp 3) (to_float ps)) (\<lambda>thr.
             and_then (split_text_content (find_first [''leafValues''] classifier_node)) (\<lambda>lv.
             and_then (and_then (py_index lv 0) (to_float ps)) (\<lambda>fv.
             and_then (and_then (py_index lv 1) (to_float ps)) (\<lambda>pv.
             Inr \<lparr>feature_idx = fidx, threshold = thr, fail_val = fv, pass_val = pv\<rparr>))))))) = Inr c"
    unfolding load_classifier_def and_then_Inr by blast
  from rest obtain sp0 where s0: "py_index sp 0 = Inr sp0" and z: "sp0 = ''0''"
    and rest1: "and_then (py_index sp 1) (\<lambda>sp1. if sp1 \<noteq> ''-1'' then Inl AssertionError else
             and_then (and_then (py_index sp 2) (to_int ps)) (\<lambda>fidx.
             and_then (and_then (py_index sp 3) (to_float ps)) (\<lambda>thr.
             and_then (split_text_content (find_first [''leafValues''] classifier_node)) (\<lambda>lv.
             and_then (and_then (py_index lv 0) (to_float ps)) (\<lambda>fv.
             and_then (and_then (py_index lv 1) (to_float ps)) (\<lambda>pv.
             Inr \<lparr>feature_idx = fidx, threshold = thr, fail_val = fv, pass_val = pv\<rparr>)))))) = Inr c"
    unfolding and_then_Inr [of "py_index sp 0"] by (auto split: if_splits)
  from rest1 obtain sp1 where s1: "py_index sp 1 = Inr sp1" and m: "sp1 = ''-1''"
    unfolding and_then_Inr [of "py_index sp 1"] by (auto split: if_splits)
  from py_index_0_1 [OF s0 s1] sp z m show ?thesis by simp
qed

lemma load_stage_classifiers:
  assumes "load_stage ps stage_node = Inr st"
    and "cn \<in> set (findall [''weakClassifiers'', ''_''] stage_node)"
  shows "\<exists>c. load_classifier ps cn = Inr c"
proof -
  from assms(1) obtain wcs where
    "collect (load_classifier ps) (findall [''weakClassifiers'', ''_''] stage_node) = Inr wcs"
    unfolding load_stage_def and_then_Inr by blast
  then show ?thesis using assms(2) by (rule collect_member)
qed

lemma load_stages:
  assumes "load ps doc = Inr casc"
    and "sn \<in> set (findall [''cascade'', ''stages'', ''_''] doc)"
  shows "\<exists>st. load_stage ps sn = Inr st"
proof -
  from assms(1) obtain sts where
    "collect (load_stage ps) (findall [''cascade'', ''stages'', ''_''] doc) = Inr sts"
    unfolding load_def and_then_Inr by blast
  then show ?thesis using assms(2) by (rule collect_member)
qed

text \<open>
  C7. If some weak-classifier node of the description has an \<open>internalNodes\<close> record
  whose first two tokens are not \<open>"0"\<close> and \<open>"-1"\<close>, then \<open>load\<close> raises: it
  returns no cascade, whatever the rest of the description and the number parsers are.
\<close>

theorem load_rejects_unsupported_nodes:
  assumes "cn \<in> set (classifier_nodes doc)"
    and "split_text_content (find_first [''internalNodes''] cn) = Inr sp"
    and "take 2 sp \<noteq> [''0'', ''-1'']"
  shows "\<exists>e. load ps doc = Inl e"
proof (rule ccontr)
  assume "\<not> (\<exists>e. load ps doc = Inl e)"
  then obtain casc where ok: "load ps doc = Inr casc"
    by (cases "load ps doc") auto
  from assms(1) obtain sn where
    sn: "sn \<in> set (findall [''cascade'', ''stages'', ''_''] doc)" and
    cn: "cn \<in> set (findall [''weakClassifiers'', ''_''] sn)"
    unfolding classifier_nodes_def by auto
  from load_stages [OF ok sn] obtain st where "load_stage ps sn = Inr st" ..
  from load_stage_classifiers [OF this cn] obtain c where "load_classifier ps cn = Inr c" ..
  from load_classifier_sentinel [OF this] assms(2,3) show False by simp
qed

theorem load_rejects_unsupported_nodes_witness:
  "bad_node \<in> set (classifier_nodes bad_document) \<and>
   split_text_content (find_first [''internalNodes''] bad_node) = Inr [''1'', ''-1'', ''0'', ''0.5''] \<and>
   take 2 [''1'', ''-1'', ''0'', ''0.5''] \<noteq> [''0'', ''-1''] \<and>
   load table_builtins bad_document = Inl AssertionError \<and>
   load table_builtins tie_document = Inr tie_cascade"
proof -
  have a: "bad_node \<in> set (classifier_nodes bad_document)"
    by code_simp
  have b: "split_text_content (find_first [''internalNodes''] bad_node) =
             Inr [''1'', ''-1'', ''0'', ''0.5'']"
    by code_simp
  have c: "take 2 [''1'', ''-1'', ''0'', ''0.5''] \<noteq> [''0'', ''-1'']"
    by simp
  have d: "load table_builtins bad_document = Inl AssertionError" by code_simp
  have e: "load table_builtins tie_document = Inr tie_cascade" by code_simp
  from load_rejects_unsupported_nodes [OF a b c, of table_builtins] d
  show ?thesis using a b c e by simp
qed

section \<open>The stage constraint in float64\<close>










end
